theory Spec2Isabelle
  imports Main "HOL-Library.Char_ord" "HOL-Library.List_Lexorder" "HOL-Library.Multiset"
begin

section \<open>JavaScript strings, maps and sorting\<close>

text \<open>
  Strings are \<open>string\<close> (lists of 8-bit characters). The seed file's natural keys
  (slugs, URLs, dates, categories) are ASCII; on ASCII text \<open>toLowerCase\<close> is the map
  below. The relational operators of JavaScript compare strings by code unit, which on
  \<open>string\<close> is the lexicographic order of \<open>List_Lexorder\<close> over \<open>Char_ord\<close>.
\<close>

definition toLowerChar :: "char \<Rightarrow> char" where
  "toLowerChar c =
     (case map_of (zip ''ABCDEFGHIJKLMNOPQRSTUVWXYZ'' ''abcdefghijklmnopqrstuvwxyz'') c of
        Some l \<Rightarrow> l | None \<Rightarrow> c)"

definition toLowerCase :: "string \<Rightarrow> string" where
  "toLowerCase s = map toLowerChar s"

definition startsWith :: "string \<Rightarrow> string \<Rightarrow> bool" where
  "startsWith s p = (take (length p) s = p)"

text \<open>\<open>hay.includes(needle)\<close>: the needle occurs as a contiguous substring.\<close>

fun includesStr :: "string \<Rightarrow> string \<Rightarrow> bool" where
  "includesStr [] needle = (needle = [])"
| "includesStr (c # cs) needle = (startsWith (c # cs) needle \<or> includesStr cs needle)"

definition isSpace :: "char \<Rightarrow> bool" where
  "isSpace c = (c = CHR '' '' \<or> c = CHR 0x09 \<or> c = CHR 0x0A \<or> c = CHR 0x0B
                \<or> c = CHR 0x0C \<or> c = CHR 0x0D)"

definition trim :: "string \<Rightarrow> string" where
  "trim s = rev (dropWhile isSpace (rev (dropWhile isSpace s)))"

text \<open>
  \<open>a.localeCompare(b)\<close> is used by the source on dates \<open>YYYY-MM-DD\<close> and on slugs; on
  such strings (digits, lower-case letters, hyphens in the same positions) it orders as
  the code units do.
\<close>

definition localeCompare :: "string \<Rightarrow> string \<Rightarrow> int" where
  "localeCompare a b = (if a < b then - 1 else if a = b then 0 else 1)"

text \<open>
  \<open>Array.prototype.sort(cmp)\<close> is a stable sort: an element stays in front of a later
  one unless the comparator puts it strictly after. It is modelled by insertion from
  the right, which keeps equal elements in their original order.
\<close>

fun insortBy :: "('a \<Rightarrow> 'a \<Rightarrow> int) \<Rightarrow> 'a \<Rightarrow> 'a list \<Rightarrow> 'a list" where
  "insortBy cmp x [] = [x]"
| "insortBy cmp x (y # ys) = (if cmp x y \<le> 0 then x # y # ys else y # insortBy cmp x ys)"

definition sortBy :: "('a \<Rightarrow> 'a \<Rightarrow> int) \<Rightarrow> 'a list \<Rightarrow> 'a list" where
  "sortBy cmp xs = foldr (insortBy cmp) xs []"

text \<open>\<open>xs.sort()\<close> on strings, without a comparator: code unit order.\<close>

definition defaultCompare :: "string \<Rightarrow> string \<Rightarrow> int" where
  "defaultCompare a b = (if a < b then - 1 else if b < a then 1 else 0)"

text \<open>
  A JavaScript \<open>Map\<close> keeps its keys in the order of their first insertion;
  \<open>set\<close> on an existing key replaces the value in place.
\<close>

fun mapSet :: "('k \<times> 'v) list \<Rightarrow> 'k \<Rightarrow> 'v \<Rightarrow> ('k \<times> 'v) list" where
  "mapSet [] k v = [(k, v)]"
| "mapSet ((k', v') # m) k v = (if k' = k then (k, v) # m else (k', v') # mapSet m k v)"

definition mapValues :: "('k \<times> 'v) list \<Rightarrow> 'v list" where
  "mapValues m = map snd m"

text \<open>\<open>new Map(pairs)\<close>: the pairs are set one after the other.\<close>

definition newMap :: "('k \<times> 'v) list \<Rightarrow> ('k \<times> 'v) list" where
  "newMap pairs = foldl (\<lambda>m (k, v). mapSet m k v) [] pairs"

definition mapGet :: "('k \<times> 'v) list \<Rightarrow> 'k \<Rightarrow> 'v option" where
  "mapGet m k = map_of m k"

section \<open>Seed file (demo-store.ts, import-seed.mjs)\<close>

record SeedSource =
  ss_source_name :: string
  ss_source_url :: string
  ss_source_type :: "string option"
  ss_publisher :: "string option"
  ss_publication_or_snapshot_date :: "string option"
  ss_access_date :: "string option"
  ss_rights_note :: "string option"
  ss_notes_on_reliability :: "string option"

datatype DemoEventStatus = Draft | Review | Published | Archived

record SeedEvent =
  se_slug :: "string option"
  se_title :: string
  se_event_date :: string
  se_region :: string
  se_category :: string
  se_summary :: string
  se_impact :: string
  se_importance_score :: int
  se_confidence_score :: "int option"
  se_status :: "DemoEventStatus option"

record SeedEventSource =
  sl_event_slug :: string
  sl_source_url :: string
  sl_relevance_rank :: "int option"
  sl_quote_excerpt :: "string option"
  sl_citation_note :: "string option"

record SeedPayload =
  p_sources :: "SeedSource list option"
  p_events :: "SeedEvent list option"
  p_event_sources :: "SeedEventSource list option"

section \<open>Import merge fallback (import-seed.mjs)\<close>

record SeedStats =
  n_sources :: nat
  n_events :: nat
  n_event_sources :: nat

definition asArray :: "'a list option \<Rightarrow> 'a list" where
  "asArray input = (case input of Some xs \<Rightarrow> xs | None \<Rightarrow> [])"

definition summarize :: "SeedPayload \<Rightarrow> SeedStats" where
  "summarize payload =
     \<lparr> n_sources = length (asArray (p_sources payload)),
       n_events = length (asArray (p_events payload)),
       n_event_sources = length (asArray (p_event_sources payload)) \<rparr>"

definition mergeByKey :: "'a list \<Rightarrow> 'a list \<Rightarrow> ('a \<Rightarrow> string) \<Rightarrow> 'a list" where
  "mergeByKey baseItems incomingItems keyOf =
     mapValues
       (foldl (\<lambda>m item. mapSet m (keyOf item) item)
          (foldl (\<lambda>m item. mapSet m (keyOf item) item) [] baseItems)
          incomingItems)"

definition sourceKey :: "SeedSource \<Rightarrow> string" where
  "sourceKey item = trim (ss_source_url item)"

definition eventKey :: "SeedEvent \<Rightarrow> string" where
  "eventKey item = trim (case se_slug item of Some s \<Rightarrow> s | None \<Rightarrow> [])"

definition linkKey :: "SeedEventSource \<Rightarrow> string" where
  "linkKey item = trim (sl_event_slug item) @ ''||'' @ trim (sl_source_url item)"

datatype FallbackReport =
  MainSeedNoop SeedStats
| MergedIntoMainSeed SeedStats SeedStats

text \<open>
  \<open>applyDemoFallback\<close> reads the main seed file, merges the payload into it and writes
  it back. The file system is the content of the main seed file: the function takes it
  and returns the content after the call, with the report it logs. \<open>filePath\<close> and
  \<open>mainSeedPath\<close> are the two normalised paths.
\<close>

definition mergedSeed :: "SeedPayload \<Rightarrow> SeedPayload \<Rightarrow> SeedPayload" where
  "mergedSeed mainPayload payload =
     mainPayload
       \<lparr> p_sources := Some (mergeByKey (asArray (p_sources mainPayload))
                          (asArray (p_sources payload)) sourceKey),
         p_events := Some (mergeByKey (asArray (p_events mainPayload))
                          (asArray (p_events payload)) eventKey),
         p_event_sources := Some (mergeByKey (asArray (p_event_sources mainPayload))
                          (asArray (p_event_sources payload)) linkKey) \<rparr>"

definition applyDemoFallback ::
  "string \<Rightarrow> string \<Rightarrow> SeedPayload \<Rightarrow> SeedPayload \<Rightarrow> FallbackReport \<times> SeedPayload" where
  "applyDemoFallback filePath mainSeedPath mainFile payload =
     (if filePath = mainSeedPath then (MainSeedNoop (summarize payload), mainFile)
      else
        (let before = summarize mainFile;
             merged = mergedSeed mainFile payload
         in (MergedIntoMainSeed before (summarize merged), merged)))"

section \<open>Demo dataset builder (demo-store.ts)\<close>

text \<open>
  Two library calls of the builder are parameters of the model: the SHA-256 digest in
  hexadecimal (\<open>createHash("sha256").update(seed).digest("hex")\<close>) and the Unicode
  step of slug normalisation (\<open>normalize("NFKD")\<close> followed by the removal of the
  combining marks U+0300 to U+036F), which is the identity on ASCII text. The wall
  clock read by \<open>new Date().toISOString()\<close> is the parameter \<open>now\<close>.
\<close>

record platform =
  sha256hex :: "string \<Rightarrow> string"
  nfkdStripMarks :: "string \<Rightarrow> string"

datatype DemoSourceType = Archive | Official | News | Research | Dataset | Other

record DemoSourceRecord =
  s_id :: string
  s_source_name :: string
  s_source_url :: string
  s_source_type :: DemoSourceType
  s_publisher :: "string option"
  s_publication_or_snapshot_date :: "string option"
  s_access_date :: "string option"
  s_rights_note :: "string option"
  s_notes_on_reliability :: "string option"
  s_created_at :: string
  s_updated_at :: string

record DemoEventRecord =
  e_id :: string
  e_slug :: string
  e_title :: string
  e_event_date :: string
  e_region :: string
  e_category :: string
  e_summary :: string
  e_impact :: string
  e_importance_score :: int
  e_confidence_score :: int
  e_status :: DemoEventStatus
  e_published_at :: "string option"
  e_created_at :: string
  e_updated_at :: string

record DemoEventSourceRecord =
  es_event_id :: string
  es_source_id :: string
  es_quote_excerpt :: "string option"
  es_citation_note :: "string option"
  es_relevance_rank :: int

record DemoTimelineRecord =
  tl_id :: string
  tl_title :: string
  tl_slug :: string
  tl_description :: "string option"
  tl_created_at :: string
  tl_updated_at :: string

record DemoTimelineEventRecord =
  te_timeline_id :: string
  te_event_id :: string
  te_sequence_no :: int

record DemoTagRecord =
  tag_id :: string
  tag_slug :: string
  tag_name :: string

record DemoEventTagRecord =
  et_event_id :: string
  et_tag_id :: string

record DemoDataset =
  sources :: "DemoSourceRecord list"
  events :: "DemoEventRecord list"
  eventSources :: "DemoEventSourceRecord list"
  timelines :: "DemoTimelineRecord list"
  timelineEvents :: "DemoTimelineEventRecord list"
  tags :: "DemoTagRecord list"
  eventTags :: "DemoEventTagRecord list"

text \<open>\<open>s.slice(a, b)\<close> for \<open>0 \<le> a \<le> b\<close>; indices past the end are clamped.\<close>

definition slice :: "'a list \<Rightarrow> nat \<Rightarrow> nat \<Rightarrow> 'a list" where
  "slice s a b = take (b - a) (drop a s)"

definition stableUuid :: "platform \<Rightarrow> string \<Rightarrow> string" where
  "stableUuid P seed =
     (let hex = sha256hex P seed
      in slice hex 0 8 @ ''-'' @ slice hex 8 12 @ ''-4'' @ slice hex 13 16
         @ ''-a'' @ slice hex 17 20 @ ''-'' @ slice hex 20 32)"

definition isSlugChar :: "char \<Rightarrow> bool" where
  "isSlugChar c = ((CHR ''a'' \<le> c \<and> c \<le> CHR ''z'') \<or> (CHR ''0'' \<le> c \<and> c \<le> CHR ''9''))"

text \<open>
  \<open>s.replace(/[X]+/g, "-")\<close>: every maximal run of characters of the class becomes one
  hyphen. The flag tells whether the previous character belonged to a run.
\<close>

fun replaceRuns :: "(char \<Rightarrow> bool) \<Rightarrow> bool \<Rightarrow> string \<Rightarrow> string" where
  "replaceRuns inClass inRun [] = []"
| "replaceRuns inClass inRun (c # cs) =
     (if inClass c
      then (if inRun then replaceRuns inClass True cs
            else CHR ''-'' # replaceRuns inClass True cs)
      else c # replaceRuns inClass False cs)"

text \<open>\<open>s.replace(/^-+|-+$/g, "")\<close>\<close>

definition trimHyphens :: "string \<Rightarrow> string" where
  "trimHyphens s =
     rev (dropWhile (\<lambda>c. c = CHR ''-'') (rev (dropWhile (\<lambda>c. c = CHR ''-'') s)))"

definition normalizeSlug :: "platform \<Rightarrow> string \<Rightarrow> string" where
  "normalizeSlug P input =
     (let normalized =
            replaceRuns (\<lambda>c. c = CHR ''-'') False
              (trimHyphens
                (replaceRuns (\<lambda>c. \<not> isSlugChar c) False
                  (toLowerCase (nfkdStripMarks P input))))
      in if normalized = [] then ''record'' else normalized)"

definition normalizeSourceType :: "string option \<Rightarrow> DemoSourceType" where
  "normalizeSourceType input =
     (if input = Some ''archive'' then Archive
      else if input = Some ''official'' then Official
      else if input = Some ''news'' then News
      else if input = Some ''research'' then Research
      else if input = Some ''dataset'' then Dataset
      else Other)"

definition toIsoDate :: "string \<Rightarrow> string" where
  "toIsoDate dateString = dateString @ ''T00:00:00.000Z''"

definition sortByEventDateAsc :: "DemoEventRecord \<Rightarrow> DemoEventRecord \<Rightarrow> int" where
  "sortByEventDateAsc a b =
     (if e_event_date a < e_event_date b then - 1
      else if e_event_date b < e_event_date a then 1
      else localeCompare (e_slug a) (e_slug b))"

definition timelineRecord ::
  "platform \<Rightarrow> string \<Rightarrow> string \<Rightarrow> string \<Rightarrow> string \<Rightarrow> string \<Rightarrow> DemoTimelineRecord" where
  "timelineRecord P now idSeed title slug description =
     \<lparr> tl_id = stableUuid P idSeed, tl_title = title, tl_slug = slug,
       tl_description = Some description, tl_created_at = now, tl_updated_at = now \<rparr>"

definition primaryTimeline :: "platform \<Rightarrow> string \<Rightarrow> DemoTimelineRecord" where
  "primaryTimeline P now =
     timelineRecord P now ''timeline:global-financial-turning-points''
       ''Global Financial Turning Points'' ''global-financial-turning-points''
       ''Major events that reshaped financial markets and policy regimes.''"

definition crisisTimeline :: "platform \<Rightarrow> string \<Rightarrow> DemoTimelineRecord" where
  "crisisTimeline P now =
     timelineRecord P now ''timeline:crisis-and-stabilization''
       ''Crisis and Stabilization Cycle'' ''crisis-and-stabilization''
       ''Episodes of stress and the policy responses that followed.''"

definition coldWarTimeline :: "platform \<Rightarrow> string \<Rightarrow> DemoTimelineRecord" where
  "coldWarTimeline P now =
     timelineRecord P now ''timeline:us-soviet-cold-war''
       ''US-Soviet Cold War (1946-1991)'' ''us-soviet-cold-war''
       ''Key geopolitical, military, and policy milestones in the U.S.-Soviet Cold War.''"

definition chinaUsTimeline :: "platform \<Rightarrow> string \<Rightarrow> DemoTimelineRecord" where
  "chinaUsTimeline P now =
     timelineRecord P now ''timeline:china-us-since-1900''
       ''China-U.S. Relations Since 1900'' ''china-us-since-1900''
       ''Major diplomatic, military, trade, and technology turning points in China-U.S. relations.''"

definition chinaSovietTimeline :: "platform \<Rightarrow> string \<Rightarrow> DemoTimelineRecord" where
  "chinaSovietTimeline P now =
     timelineRecord P now ''timeline:china-soviet-relations''
       ''China-Soviet Relations (1949-1991)'' ''china-soviet-relations''
       ''Alliance, split, border crises, and normalization milestones in China-Soviet relations.''"

definition chinaWarTimeline :: "platform \<Rightarrow> string \<Rightarrow> DemoTimelineRecord" where
  "chinaWarTimeline P now =
     timelineRecord P now ''timeline:china-wars-since-1900''
       ''Wars Involving China Since 1900'' ''china-wars-since-1900''
       ''Major interstate and cross-strait conflict milestones involving China after 1900.''"

definition usWarTimeline :: "platform \<Rightarrow> string \<Rightarrow> DemoTimelineRecord" where
  "usWarTimeline P now =
     timelineRecord P now ''timeline:us-wars-since-1900''
       ''Wars Involving the United States Since 1900'' ''us-wars-since-1900''
       ''Major war-entry, escalation, intervention, and withdrawal milestones involving the United States.''"

definition ccpTimeline :: "platform \<Rightarrow> string \<Rightarrow> DemoTimelineRecord" where
  "ccpTimeline P now =
     timelineRecord P now ''timeline:ccp-history-since-1921''
       ''CPC-Centered Timeline Since 1921'' ''ccp-history-since-1921''
       ''Major organizational, political, and policy milestones centered on the Communist Party of China.''"

definition worldWarTwoTimeline :: "platform \<Rightarrow> string \<Rightarrow> DemoTimelineRecord" where
  "worldWarTwoTimeline P now =
     timelineRecord P now ''timeline:world-war-ii''
       ''World War II Timeline (1939-1945)'' ''world-war-ii''
       ''Key military, diplomatic, and war-ending milestones in World War II.''"

text \<open>\<open>/crash|crisis|stress|banking|default|rescue|failure/.test(haystack)\<close>\<close>

definition crisisPattern :: "string \<Rightarrow> bool" where
  "crisisPattern haystack =
     list_ex (includesStr haystack)
       [''crash'', ''crisis'', ''stress'', ''banking'', ''default'', ''rescue'', ''failure'']"

text \<open>
  One \<open>forEach\<close> loop of \<open>buildTimelines\<close>: the rows it pushes for one timeline, with
  sequence numbers \<open>index + 1\<close>.
\<close>

definition pushMembers :: "DemoTimelineRecord \<Rightarrow> DemoEventRecord list \<Rightarrow> DemoTimelineEventRecord list" where
  "pushMembers timeline evs =
     map (\<lambda>(index, event).
            \<lparr> te_timeline_id = tl_id timeline, te_event_id = e_id event,
              te_sequence_no = int index + 1 \<rparr>)
         (List.enumerate 0 evs)"

definition buildTimelines ::
  "platform \<Rightarrow> string \<Rightarrow> DemoEventRecord list
     \<Rightarrow> DemoTimelineRecord list \<times> DemoTimelineEventRecord list" where
  "buildTimelines P now evs =
     (let publishedEvents = sortBy sortByEventDateAsc (filter (\<lambda>event. e_status event = Published) evs);
          crisisEvents = filter (\<lambda>event.
              crisisPattern (toLowerCase (e_title event @ '' '' @ e_category event))) publishedEvents;
          coldWarEvents = filter (\<lambda>event. startsWith (e_slug event) ''cold-war-'') publishedEvents;
          chinaUsEvents = filter (\<lambda>event. startsWith (e_slug event) ''china-us-'') publishedEvents;
          chinaSovietEvents = filter (\<lambda>event. startsWith (e_slug event) ''china-soviet-'') publishedEvents;
          chinaWarEvents = filter (\<lambda>event. startsWith (e_slug event) ''china-war-'') publishedEvents;
          usWarEvents = filter (\<lambda>event. startsWith (e_slug event) ''us-war-'') publishedEvents;
          ccpEvents = filter (\<lambda>event. startsWith (e_slug event) ''ccp-'') publishedEvents;
          worldWarTwoEvents = filter (\<lambda>event. startsWith (e_slug event) ''wwii-'') publishedEvents
      in ([primaryTimeline P now, crisisTimeline P now, coldWarTimeline P now,
           chinaUsTimeline P now, chinaSovietTimeline P now, chinaWarTimeline P now,
           usWarTimeline P now, ccpTimeline P now, worldWarTwoTimeline P now],
          pushMembers (primaryTimeline P now) publishedEvents
          @ pushMembers (crisisTimeline P now) crisisEvents
          @ pushMembers (coldWarTimeline P now) coldWarEvents
          @ pushMembers (chinaUsTimeline P now) chinaUsEvents
          @ pushMembers (chinaSovietTimeline P now) chinaSovietEvents
          @ pushMembers (chinaWarTimeline P now) chinaWarEvents
          @ pushMembers (usWarTimeline P now) usWarEvents
          @ pushMembers (ccpTimeline P now) ccpEvents
          @ pushMembers (worldWarTwoTimeline P now) worldWarTwoEvents))"

text \<open>
  The body of the loop of \<open>buildTags\<close>, on the pair of the map \<open>categoryToTag\<close> and the
  array \<open>eventTags\<close>.
\<close>

definition buildTagsStep ::
  "platform \<Rightarrow> (string \<times> DemoTagRecord) list \<times> DemoEventTagRecord list \<Rightarrow> DemoEventRecord
     \<Rightarrow> (string \<times> DemoTagRecord) list \<times> DemoEventTagRecord list" where
  "buildTagsStep P st event =
     (let categoryToTag = fst st; evTags = snd st;
          slug = normalizeSlug P (e_category event);
          categoryToTag' =
            (if mapGet categoryToTag slug = None
             then mapSet categoryToTag slug
                    \<lparr> tag_id = stableUuid P (''tag:'' @ slug), tag_slug = slug,
                      tag_name = e_category event \<rparr>
             else categoryToTag)
      in case mapGet categoryToTag' slug of
           Some tag \<Rightarrow>
             (categoryToTag', evTags @ [\<lparr> et_event_id = e_id event, et_tag_id = tag_id tag \<rparr>])
         | None \<Rightarrow> (categoryToTag', evTags))"

definition buildTags ::
  "platform \<Rightarrow> DemoEventRecord list \<Rightarrow> DemoTagRecord list \<times> DemoEventTagRecord list" where
  "buildTags P evs =
     (let st = foldl (buildTagsStep P) ([], []) evs
      in (mapValues (fst st), snd st))"

definition buildSource :: "platform \<Rightarrow> string \<Rightarrow> SeedSource \<Rightarrow> DemoSourceRecord" where
  "buildSource P now source =
     \<lparr> s_id = stableUuid P (''source:'' @ ss_source_url source),
       s_source_name = ss_source_name source,
       s_source_url = ss_source_url source,
       s_source_type = normalizeSourceType (ss_source_type source),
       s_publisher = ss_publisher source,
       s_publication_or_snapshot_date = ss_publication_or_snapshot_date source,
       s_access_date = ss_access_date source,
       s_rights_note = ss_rights_note source,
       s_notes_on_reliability = ss_notes_on_reliability source,
       s_created_at = now,
       s_updated_at = now \<rparr>"

definition buildEvent :: "platform \<Rightarrow> string \<Rightarrow> SeedEvent \<Rightarrow> DemoEventRecord" where
  "buildEvent P now event =
     (let slug = normalizeSlug P (case se_slug event of Some s \<Rightarrow> s | None \<Rightarrow> se_title event);
          status = (case se_status event of Some st \<Rightarrow> st | None \<Rightarrow> Draft)
      in \<lparr> e_id = stableUuid P (''event:'' @ slug),
           e_slug = slug,
           e_title = se_title event,
           e_event_date = se_event_date event,
           e_region = se_region event,
           e_category = se_category event,
           e_summary = se_summary event,
           e_impact = se_impact event,
           e_importance_score = se_importance_score event,
           e_confidence_score = (case se_confidence_score event of Some c \<Rightarrow> c | None \<Rightarrow> 3),
           e_status = status,
           e_published_at =
             (if status = Published then Some (toIsoDate (se_event_date event)) else None),
           e_created_at = now,
           e_updated_at = now \<rparr>)"

text \<open>
  One link of the seed, resolved against the two lookup maps; \<open>None\<close> is the \<open>null\<close>
  that the following \<open>filter\<close> removes. An absent id and the empty string are both
  falsy.
\<close>

definition buildLink ::
  "platform \<Rightarrow> (string \<times> string) list \<Rightarrow> (string \<times> string) list \<Rightarrow> SeedEventSource
     \<Rightarrow> DemoEventSourceRecord option" where
  "buildLink P eventIdBySlug sourceIdByUrl link =
     (case (mapGet eventIdBySlug (normalizeSlug P (sl_event_slug link)),
            mapGet sourceIdByUrl (sl_source_url link)) of
        (Some eventId, Some sourceId) \<Rightarrow>
          (if eventId = [] \<or> sourceId = [] then None
           else Some \<lparr> es_event_id = eventId, es_source_id = sourceId,
                       es_quote_excerpt = sl_quote_excerpt link,
                       es_citation_note = sl_citation_note link,
                       es_relevance_rank =
                         (case sl_relevance_rank link of Some r \<Rightarrow> r | None \<Rightarrow> 1) \<rparr>)
      | _ \<Rightarrow> None)"

definition buildDataset :: "platform \<Rightarrow> string \<Rightarrow> SeedPayload \<Rightarrow> DemoDataset" where
  "buildDataset P now payload =
     (let srcs = map (buildSource P now) (asArray (p_sources payload));
          evs = map (buildEvent P now) (asArray (p_events payload));
          eventIdBySlug = newMap (map (\<lambda>event. (e_slug event, e_id event)) evs);
          sourceIdByUrl = newMap (map (\<lambda>source. (s_source_url source, s_id source)) srcs);
          links = List.map_filter (buildLink P eventIdBySlug sourceIdByUrl)
                    (asArray (p_event_sources payload));
          builtTimelines = buildTimelines P now evs;
          builtTags = buildTags P evs
      in \<lparr> sources = srcs, events = evs, eventSources = links,
           timelines = fst builtTimelines, timelineEvents = snd builtTimelines,
           tags = fst builtTags, eventTags = snd builtTags \<rparr>)"

section \<open>Identifier validation (events.ts)\<close>

definition isHexDigit :: "char \<Rightarrow> bool" where
  "isHexDigit c = ((CHR ''0'' \<le> c \<and> c \<le> CHR ''9'') \<or> (CHR ''a'' \<le> c \<and> c \<le> CHR ''f'')
                   \<or> (CHR ''A'' \<le> c \<and> c \<le> CHR ''F''))"

text \<open>
  \<open>/^[0-9a-f]{8}-[0-9a-f]{4}-[1-5][0-9a-f]{3}-[89ab][0-9a-f]{3}-[0-9a-f]{12}$/i\<close>:
  the five groups are read off one after the other.
\<close>

definition isValidUuid :: "string \<Rightarrow> bool" where
  "isValidUuid v =
     (length v = 36
      \<and> list_all isHexDigit (slice v 0 8) \<and> slice v 8 9 = ''-''
      \<and> list_all isHexDigit (slice v 9 13) \<and> slice v 13 14 = ''-''
      \<and> list_ex (\<lambda>c. slice v 14 15 = [c]) ''12345''
      \<and> list_all isHexDigit (slice v 15 18) \<and> slice v 18 19 = ''-''
      \<and> list_ex (\<lambda>c. slice v 19 20 = [c]) ''89abAB''
      \<and> list_all isHexDigit (slice v 20 23) \<and> slice v 23 24 = ''-''
      \<and> list_all isHexDigit (slice v 24 36))"

section \<open>Availability classifier (runtime.ts)\<close>

text \<open>
  A thrown JavaScript value. An object carries its identity, a number: two objects of
  a value are the same object exactly when they carry the same number. \<open>JError\<close> is an
  instance of \<open>Error\<close> (its message is a string), \<open>JObject\<close> any other object, \<open>JArr\<close>
  an array. Of an object the classifier reads the properties \<open>message\<close>, \<open>code\<close>,
  \<open>cause\<close> and \<open>errors\<close>, which follow the identity in this order in both
  constructors. A value is a finite term, so an object that is reached along two
  paths is written at both places, with the same identity.
\<close>

datatype jsval =
  JUndefined
| JNull
| JBool bool
| JNum int
| JStr string
| JArr nat "jsval list"
| JError nat string jsval jsval jsval
| JObject nat jsval jsval jsval jsval

definition DB_UNAVAILABLE_PATTERNS :: "string list" where
  "DB_UNAVAILABLE_PATTERNS =
     [''DATABASE_URL is not set'', ''ECONNREFUSED'', ''ETIMEDOUT'', ''ENOTFOUND'',
      ''connection terminated'', ''could not connect to server'', ''failed to connect'']"

text \<open>\<open>/pattern/i.test(message)\<close> for a pattern without metacharacters.\<close>

definition testIgnoreCase :: "string \<Rightarrow> string \<Rightarrow> bool" where
  "testIgnoreCase pattern message = includesStr (toLowerCase message) (toLowerCase pattern)"

definition isDatabaseUnavailableMessage :: "string \<Rightarrow> bool" where
  "isDatabaseUnavailableMessage message =
     list_ex (\<lambda>pattern. testIgnoreCase pattern message) DB_UNAVAILABLE_PATTERNS"

definition isDbUnavailableCode :: "jsval \<Rightarrow> bool" where
  "isDbUnavailableCode code =
     (case code of
        JStr c \<Rightarrow>
          list_ex (\<lambda>name. toLowerCase c = toLowerCase name)
            [''ECONNREFUSED'', ''ETIMEDOUT'', ''ENOTFOUND'', ''ECONNRESET'', ''EHOSTUNREACH'']
      | _ \<Rightarrow> False)"

definition truthy :: "jsval \<Rightarrow> bool" where
  "truthy v = (v \<noteq> JUndefined \<and> v \<noteq> JNull \<and> v \<noteq> JBool False \<and> v \<noteq> JNum 0 \<and> v \<noteq> JStr [])"

definition messageMatches :: "jsval \<Rightarrow> bool" where
  "messageMatches message =
     (case message of JStr m \<Rightarrow> isDatabaseUnavailableMessage m | _ \<Rightarrow> False)"

text \<open>
  \<open>isUnavailableErrorTree(error, seen)\<close> returns its result together with the set
  \<open>seen\<close> as the call leaves it, the identities in a list; \<open>someUnavailable\<close> is the
  loop of \<open>nested.some(...)\<close>, which stops at the first element that is classified.
  The set of the source also takes the strings, numbers and booleans it meets; they
  are classified as false whether met before or not, and the list leaves them out.
\<close>

function (sequential) isUnavailableErrorTree :: "jsval \<Rightarrow> nat list \<Rightarrow> bool \<times> nat list"
  and someUnavailable :: "jsval list \<Rightarrow> nat list \<Rightarrow> bool \<times> nat list" where
  "isUnavailableErrorTree (JError i message code cause errors) seen =
     (if i \<in> set seen then (False, seen)
      else if isDatabaseUnavailableMessage message then (True, i # seen)
      else if isDbUnavailableCode code then (True, i # seen)
      else if messageMatches (JStr message) then (True, i # seen)
      else (case (if truthy cause then isUnavailableErrorTree cause (i # seen)
                  else (False, i # seen)) of
              (True, seen2) \<Rightarrow> (True, seen2)
            | (False, seen2) \<Rightarrow>
                (case errors of JArr j nested \<Rightarrow> someUnavailable nested seen2
                              | _ \<Rightarrow> (False, seen2))))"
| "isUnavailableErrorTree (JObject i message code cause errors) seen =
     (if i \<in> set seen then (False, seen)
      else if isDbUnavailableCode code then (True, i # seen)
      else if messageMatches message then (True, i # seen)
      else (case (if truthy cause then isUnavailableErrorTree cause (i # seen)
                  else (False, i # seen)) of
              (True, seen2) \<Rightarrow> (True, seen2)
            | (False, seen2) \<Rightarrow>
                (case errors of JArr j nested \<Rightarrow> someUnavailable nested seen2
                              | _ \<Rightarrow> (False, seen2))))"
| "isUnavailableErrorTree (JArr i elements) seen =
     (if i \<in> set seen then (False, seen) else (False, i # seen))"
| "isUnavailableErrorTree v seen = (False, seen)"
| "someUnavailable [] seen = (False, seen)"
| "someUnavailable (item # rest) seen =
     (case isUnavailableErrorTree item seen of
        (True, seen1) \<Rightarrow> (True, seen1)
      | (False, seen1) \<Rightarrow> someUnavailable rest seen1)"
  by pat_completeness auto
termination
  by (relation "measure (\<lambda>x. case x of Inl (v, s) \<Rightarrow> size v | Inr (xs, s) \<Rightarrow> size_list size xs)")
     auto

definition isDatabaseUnavailableError :: "jsval \<Rightarrow> bool" where
  "isDatabaseUnavailableError error = fst (isUnavailableErrorTree error [])"

definition toErrorMessage :: "jsval \<Rightarrow> string" where
  "toErrorMessage error =
     (case error of JError i message code cause errors \<Rightarrow> message | _ \<Rightarrow> ''Unknown error'')"












section \<open>Configuration and connection pool (runtime.ts, db.ts)\<close>

record env =
  DATABASE_URL :: "string option"

definition hasDatabaseConfig :: "env \<Rightarrow> bool" where
  "hasDatabaseConfig e =
     (case DATABASE_URL e of Some url \<Rightarrow> url \<noteq> [] \<and> trim url \<noteq> [] | None \<Rightarrow> False)"

definition createPool :: "env \<Rightarrow> jsval + unit" where
  "createPool e =
     (case DATABASE_URL e of
        None \<Rightarrow> Inl (JError 0 ''DATABASE_URL is not set'' JUndefined JUndefined JUndefined)
      | Some connectionString \<Rightarrow>
          if connectionString = []
          then Inl (JError 0 ''DATABASE_URL is not set'' JUndefined JUndefined JUndefined)
          else Inr ())"

text \<open>\<open>pooled\<close> tells whether \<open>global.__financialHistoryPgPool\<close> is already set.\<close>

definition getDbPool :: "env \<Rightarrow> bool \<Rightarrow> jsval + unit" where
  "getDbPool e pooled = (if pooled then Inr () else createPool e)"

section \<open>API responses and the admin route for events (api.ts, admin/events/route.ts)\<close>

record AdminEventRecord =
  ae_id :: string
  ae_slug :: string
  ae_title :: string
  ae_event_date :: string
  ae_region :: string
  ae_category :: string
  ae_summary :: string
  ae_impact :: string
  ae_importance_score :: int
  ae_confidence_score :: int
  ae_status :: DemoEventStatus
  ae_published_at :: "string option"
  ae_created_at :: string
  ae_updated_at :: string

record CreateEventInput =
  ci_slug :: "string option"
  ci_title :: string
  ci_event_date :: string
  ci_region :: string
  ci_category :: string
  ci_summary :: string
  ci_impact :: string
  ci_importance_score :: int
  ci_confidence_score :: "int option"

text \<open>
  A response: the data of a success envelope (status 200 or 201), or the status, code
  and message of an error envelope.
\<close>

datatype 'a ApiResponse =
  Ok 'a
| Created 'a
| ErrorEnvelope nat string string

definition badRequest :: "string \<Rightarrow> 'a ApiResponse" where
  "badRequest message = ErrorEnvelope 400 ''VALIDATION_ERROR'' message"

definition unauthorized :: "string \<Rightarrow> 'a ApiResponse" where
  "unauthorized message = ErrorEnvelope 401 ''UNAUTHORIZED'' message"

definition forbidden :: "string \<Rightarrow> 'a ApiResponse" where
  "forbidden message = ErrorEnvelope 403 ''FORBIDDEN'' message"

definition notFound :: "string \<Rightarrow> 'a ApiResponse" where
  "notFound message = ErrorEnvelope 404 ''NOT_FOUND'' message"

definition conflict :: "string \<Rightarrow> 'a ApiResponse" where
  "conflict message = ErrorEnvelope 409 ''CONFLICT'' message"

definition serverError :: "string \<Rightarrow> 'a ApiResponse" where
  "serverError message =
     (if isDatabaseUnavailableMessage message
      then ErrorEnvelope 503 ''SERVICE_UNAVAILABLE''
             ''Database is unavailable. Configure DATABASE_URL or run demo mode.''
      else ErrorEnvelope 500 ''INTERNAL_ERROR'' message)"

definition requireAdmin :: "string option \<Rightarrow> 'a ApiResponse option" where
  "requireAdmin role =
     (case role of
        None \<Rightarrow> Some (unauthorized ''Missing x-role header'')
      | Some r \<Rightarrow>
          if r = [] then Some (unauthorized ''Missing x-role header'')
          else if r \<noteq> ''admin'' \<and> r \<noteq> ''editor''
          then Some (forbidden ''Admin or editor role required'')
          else None)"

text \<open>
  What the live store does with the queries of one \<open>createEvent\<close> call: it answers
  the \<open>INSERT\<close> with the stored row, or a query is rejected with an error value.
\<close>

datatype WriteOutcome = Answers AdminEventRecord | Rejects jsval

definition createEvent :: "env \<Rightarrow> bool \<Rightarrow> WriteOutcome \<Rightarrow> CreateEventInput \<Rightarrow> jsval + AdminEventRecord" where
  "createEvent e pooled store input =
     (case getDbPool e pooled of
        Inl error \<Rightarrow> Inl error
      | Inr pool \<Rightarrow>
          (case store of Rejects error \<Rightarrow> Inl error | Answers row \<Rightarrow> Inr row))"

definition errorCode :: "jsval \<Rightarrow> jsval" where
  "errorCode error =
     (case error of
        JError i message code cause errors \<Rightarrow> code
      | JObject i message code cause errors \<Rightarrow> code
      | _ \<Rightarrow> JUndefined)"

text \<open>
  \<open>POST /api/v1/admin/events\<close>. The request is its \<open>x-role\<close> header and the result of
  \<open>validateCreateEventInput\<close> on its body (an error message or the validated input).
\<close>

definition POST_admin_events ::
  "env \<Rightarrow> bool \<Rightarrow> WriteOutcome \<Rightarrow> string option \<Rightarrow> string + CreateEventInput
     \<Rightarrow> AdminEventRecord ApiResponse" where
  "POST_admin_events e pooled store role validation =
     (case requireAdmin role of
        Some auth \<Rightarrow> auth
      | None \<Rightarrow>
          (case validation of
             Inl error \<Rightarrow> badRequest error
           | Inr v \<Rightarrow>
               (case createEvent e pooled store v of
                  Inr event \<Rightarrow> Created event
                | Inl error \<Rightarrow>
                    if errorCode error = JStr ''23505'' then conflict ''event slug already exists''
                    else serverError (toErrorMessage error))))"

section \<open>Event listings from the demo dataset (events.ts)\<close>

datatype EventSort = DateDesc | DateAsc | ImportanceDesc

record ListEventsFilters =
  f_date :: "string option"
  f_from :: "string option"
  f_to :: "string option"
  f_category :: "string option"
  f_region :: "string option"
  f_tag :: "string option"
  f_importanceMin :: "int option"
  f_q :: "string option"
  f_page :: int
  f_pageSize :: int
  f_sort :: EventSort

record EventListItem =
  i_id :: string
  i_slug :: string
  i_title :: string
  i_event_date :: string
  i_region :: string
  i_category :: string
  i_summary :: string
  i_importance_score :: int
  i_confidence_score :: int
  i_source_count :: int
  i_tags :: "string list"

text \<open>\<open>Math.ceil(total / pageSize)\<close>; the quotient by zero is \<open>Infinity\<close>.\<close>

datatype PageCount = Pages int | InfinitePages

record Pagination =
  pg_page :: int
  pg_page_size :: int
  pg_total :: int
  pg_total_pages :: PageCount

record EventListResult =
  items :: "EventListItem list"
  pagination :: Pagination

text \<open>
  \<open>if (filters.x) items = items.filter(...)\<close>: the filter is applied when the value
  is truthy, that is present and not the empty string.
\<close>

definition whenGiven :: "string option \<Rightarrow> (string \<Rightarrow> 'a \<Rightarrow> bool) \<Rightarrow> 'a list \<Rightarrow> 'a list" where
  "whenGiven v keep xs =
     (case v of Some s \<Rightarrow> (if s = [] then xs else filter (keep s) xs) | None \<Rightarrow> xs)"

definition matchesKeyword :: "string \<Rightarrow> string \<Rightarrow> bool" where
  "matchesKeyword haystack query = includesStr (toLowerCase haystack) (toLowerCase query)"

definition applyEventSort :: "EventListItem list \<Rightarrow> EventSort \<Rightarrow> EventListItem list" where
  "applyEventSort its sortOrder =
     (if sortOrder = DateAsc
      then sortBy (\<lambda>a b. localeCompare (i_event_date a) (i_event_date b)) its
      else if sortOrder = ImportanceDesc
      then sortBy (\<lambda>a b.
             if i_importance_score b \<noteq> i_importance_score a
             then i_importance_score b - i_importance_score a
             else localeCompare (i_event_date b) (i_event_date a)) its
      else sortBy (\<lambda>a b. localeCompare (i_event_date b) (i_event_date a)) its)"

text \<open>
  \<open>xs.slice(start, end)\<close> on an array, for integer arguments: a negative index counts
  from the end, and both are clamped to the array.
\<close>

definition jsSlice :: "'a list \<Rightarrow> int \<Rightarrow> int \<Rightarrow> 'a list" where
  "jsSlice xs start fin =
     (let n = int (length xs);
          k = (if start < 0 then max (n + start) 0 else min start n);
          final = (if fin < 0 then max (n + fin) 0 else min fin n)
      in take (nat (final - k)) (drop (nat k) xs))"

definition totalPages :: "int \<Rightarrow> int \<Rightarrow> PageCount" where
  "totalPages totalCount pageSize =
     (if totalCount = 0 then Pages 0
      else if pageSize = 0 then InfinitePages
      else Pages (- ((- totalCount) div pageSize)))"

text \<open>The two loops that fill \<open>tagsByEventId\<close> and \<open>sourceCountByEventId\<close>.\<close>

definition tagsByEventIdStep ::
  "DemoDataset \<Rightarrow> (string \<times> string list) list \<Rightarrow> DemoEventTagRecord \<Rightarrow> (string \<times> string list) list" where
  "tagsByEventIdStep dataset m eventTag =
     (case List.find (\<lambda>entry. tag_id entry = et_tag_id eventTag) (tags dataset) of
        None \<Rightarrow> m
      | Some tag \<Rightarrow>
          (let existing = (case mapGet m (et_event_id eventTag) of Some ts \<Rightarrow> ts | None \<Rightarrow> [])
           in mapSet m (et_event_id eventTag) (existing @ [tag_slug tag])))"

definition sourceCountStep ::
  "(string \<times> int) list \<Rightarrow> DemoEventSourceRecord \<Rightarrow> (string \<times> int) list" where
  "sourceCountStep m link =
     mapSet m (es_event_id link)
       ((case mapGet m (es_event_id link) of Some n \<Rightarrow> n | None \<Rightarrow> 0) + 1)"

definition demoItem ::
  "(string \<times> string list) list \<Rightarrow> (string \<times> int) list \<Rightarrow> DemoEventRecord \<Rightarrow> EventListItem" where
  "demoItem tagsByEventId sourceCountByEventId event =
     \<lparr> i_id = e_id event,
       i_slug = e_slug event,
       i_title = e_title event,
       i_event_date = e_event_date event,
       i_region = e_region event,
       i_category = e_category event,
       i_summary = e_summary event,
       i_importance_score = e_importance_score event,
       i_confidence_score = e_confidence_score event,
       i_source_count =
         (case mapGet sourceCountByEventId (e_id event) of Some n \<Rightarrow> n | None \<Rightarrow> 0),
       i_tags =
         sortBy defaultCompare
           (case mapGet tagsByEventId (e_id event) of Some ts \<Rightarrow> ts | None \<Rightarrow> []) \<rparr>"

text \<open>The chain of optional filters of \<open>listPublishedEventsFromDemo\<close>, in its order.\<close>

definition demoFilters :: "ListEventsFilters \<Rightarrow> EventListItem list \<Rightarrow> EventListItem list" where
  "demoFilters filters its0 =
     (let its1 = whenGiven (f_date filters) (\<lambda>date item. i_event_date item = date) its0;
          its2 = whenGiven (f_from filters) (\<lambda>from item. from \<le> i_event_date item) its1;
          its3 = whenGiven (f_to filters) (\<lambda>to item. i_event_date item \<le> to) its2;
          its4 = whenGiven (f_category filters) (\<lambda>category item. i_category item = category) its3;
          its5 = whenGiven (f_region filters) (\<lambda>region item. i_region item = region) its4;
          its6 = whenGiven (f_tag filters) (\<lambda>tag item. tag \<in> set (i_tags item)) its5;
          its7 = (case f_importanceMin filters of
                    Some importanceMin \<Rightarrow>
                      filter (\<lambda>item. importanceMin \<le> i_importance_score item) its6
                  | None \<Rightarrow> its6);
          its8 = whenGiven (f_q filters)
                   (\<lambda>q item.
                      matchesKeyword
                        (i_title item @ '' '' @ i_summary item @ '' '' @ i_category item
                         @ '' '' @ i_region item) q) its7
      in its8)"

definition listPublishedEventsFromDemo :: "DemoDataset \<Rightarrow> ListEventsFilters \<Rightarrow> EventListResult" where
  "listPublishedEventsFromDemo dataset filters =
     (let tagsByEventId = foldl (tagsByEventIdStep dataset) [] (eventTags dataset);
          sourceCountByEventId = foldl sourceCountStep [] (eventSources dataset);
          its = map (demoItem tagsByEventId sourceCountByEventId)
                  (filter (\<lambda>event. e_status event = Published) (events dataset));
          sorted = applyEventSort (demoFilters filters its) (f_sort filters);
          totalCount = int (length sorted);
          offset = (f_page filters - 1) * f_pageSize filters;
          paged = jsSlice sorted offset (offset + f_pageSize filters)
      in \<lparr> items = paged,
           pagination = \<lparr> pg_page = f_page filters, pg_page_size = f_pageSize filters,
                          pg_total = totalCount,
                          pg_total_pages = totalPages totalCount (f_pageSize filters) \<rparr> \<rparr>)"

definition listPublishedEventsByMonthDayFromDemo :: "DemoDataset \<Rightarrow> string \<Rightarrow> EventListItem list" where
  "listPublishedEventsByMonthDayFromDemo dataset monthDay =
     (let result = listPublishedEventsFromDemo dataset
            \<lparr> f_date = None, f_from = None, f_to = None, f_category = None, f_region = None,
              f_tag = None, f_importanceMin = None, f_q = None,
              f_page = 1, f_pageSize = 5000, f_sort = DateDesc \<rparr>
      in filter (\<lambda>item. drop 5 (i_event_date item) = monthDay) (items result))"

section \<open>Event listings from the live store (events.ts)\<close>

text \<open>
  The live store is PostgreSQL with the tables \<open>events\<close>, \<open>sources\<close>,
  \<open>event_sources\<close>, \<open>tags\<close> and \<open>event_tags\<close>, whose columns are the fields of the
  dataset's records; a \<open>DemoDataset\<close> value gives the rows of these tables. The queries
  of the source are read as follows: \<open>WHERE\<close> is a filter of the rows, a join is the
  list of matching pairs, \<open>ORDER BY\<close> sorts the rows by its keys, \<open>LIMIT\<close> and \<open>OFFSET\<close>
  are \<open>take\<close> and \<open>drop\<close>. SQL does not fix the order of rows with equal keys: in the
  query of the event list that order is the engine's, a parameter of the model; the
  queries of the month-day list and of the source detail are written with the sort that
  leaves such rows in table order. Texts are equal when their code units are. A
  \<open>date\<close> column holds text of the form \<open>YYYY-MM-DD\<close>, so that dates compare as their
  texts do. Identifiers are compared as texts (the routes pass a parameter to a \<open>uuid\<close>
  column only after \<open>isValidUuid\<close>).
\<close>

datatype LiveStore = Reachable DemoDataset | Unreachable jsval






text \<open>
  What the query of the event list leaves to PostgreSQL. \<open>orderBy\<close> is the engine's
  \<open>ORDER BY\<close> for a comparison of rows; it decides the order of rows with equal keys.
  \<open>orderSlugs\<close> is the order that \<open>json_agg(t.slug ORDER BY t.slug)\<close> gives to the tag
  slugs of an event, which is the order of the column's collation.
  \<open>textSearch doc q\<close> is
  \<open>to_tsvector('simple', doc) @@ plainto_tsquery('simple', q)\<close>, which rests on the
  engine's text parser. \<open>dateCast s\<close> is the date that the cast \<open>::date\<close> reads in the
  text \<open>s\<close>, written \<open>YYYY-MM-DD\<close>, or nothing when the cast rejects the text.
\<close>

record postgres =
  orderBy :: "(DemoEventRecord \<Rightarrow> DemoEventRecord \<Rightarrow> int) \<Rightarrow> DemoEventRecord list
                \<Rightarrow> DemoEventRecord list"
  orderSlugs :: "string list \<Rightarrow> string list"
  textSearch :: "string \<Rightarrow> string \<Rightarrow> bool"
  dateCast :: "string \<Rightarrow> string option"



text \<open>\<open>event_tags et JOIN tags t ON t.id = et.tag_id WHERE et.event_id = e.id\<close>, the slugs.\<close>

definition joinedTagSlugs :: "DemoDataset \<Rightarrow> string \<Rightarrow> string list" where
  "joinedTagSlugs db eventId =
     concat (map (\<lambda>et. map tag_slug (filter (\<lambda>t. tag_id t = et_tag_id et) (tags db)))
               (filter (\<lambda>et. et_event_id et = eventId) (eventTags db)))"

text \<open>A condition of \<open>buildEventWhere\<close> that is pushed only when its value is truthy.\<close>

definition pushedWhen :: "string option \<Rightarrow> (string \<Rightarrow> bool) \<Rightarrow> bool" where
  "pushedWhen v cond = (case v of Some s \<Rightarrow> (if s = [] then True else cond s) | None \<Rightarrow> True)"




definition liveItem :: "DemoDataset \<Rightarrow> DemoEventRecord \<Rightarrow> EventListItem" where
  "liveItem db e =
     \<lparr> i_id = e_id e,
       i_slug = e_slug e,
       i_title = e_title e,
       i_event_date = e_event_date e,
       i_region = e_region e,
       i_category = e_category e,
       i_summary = e_summary e,
       i_importance_score = e_importance_score e,
       i_confidence_score = e_confidence_score e,
       i_source_count =
         int (length (filter (\<lambda>es. es_event_id es = e_id e) (eventSources db))),
       i_tags = sortBy defaultCompare (joinedTagSlugs db (e_id e)) \<rparr>"




definition monthDayOrder :: "DemoEventRecord \<Rightarrow> DemoEventRecord \<Rightarrow> int" where
  "monthDayOrder a b =
     (if e_event_date a \<noteq> e_event_date b then defaultCompare (e_event_date b) (e_event_date a)
      else e_importance_score b - e_importance_score a)"

definition listPublishedEventsByMonthDayQuery :: "DemoDataset \<Rightarrow> string \<Rightarrow> EventListItem list" where
  "listPublishedEventsByMonthDayQuery db monthDay =
     map (liveItem db)
       (sortBy monthDayOrder
          (filter (\<lambda>e. e_status e = Published \<and> drop 5 (e_event_date e) = monthDay) (events db)))"

definition listPublishedEventsByMonthDay ::
  "env \<Rightarrow> LiveStore \<Rightarrow> DemoDataset \<Rightarrow> string \<Rightarrow> jsval + EventListItem list" where
  "listPublishedEventsByMonthDay e store dataset monthDay =
     (if \<not> hasDatabaseConfig e then Inr (listPublishedEventsByMonthDayFromDemo dataset monthDay)
      else
        (case store of
           Reachable db \<Rightarrow> Inr (listPublishedEventsByMonthDayQuery db monthDay)
         | Unreachable error \<Rightarrow>
             if isDatabaseUnavailableError error
             then Inr (listPublishedEventsByMonthDayFromDemo dataset monthDay)
             else Inl error))"

section \<open>Source detail (sources.ts)\<close>

record SourceLinkedEvent =
  le_id :: string
  le_slug :: string
  le_title :: string
  le_event_date :: string
  le_region :: string
  le_category :: string
  le_summary :: string
  le_relevance_rank :: int
  le_quote_excerpt :: "string option"
  le_citation_note :: "string option"

record SourceDetail =
  sd_source :: DemoSourceRecord
  sd_linked_events :: "SourceLinkedEvent list"

definition linkedEvent :: "DemoEventRecord \<Rightarrow> DemoEventSourceRecord \<Rightarrow> SourceLinkedEvent" where
  "linkedEvent event link =
     \<lparr> le_id = e_id event,
       le_slug = e_slug event,
       le_title = e_title event,
       le_event_date = e_event_date event,
       le_region = e_region event,
       le_category = e_category event,
       le_summary = e_summary event,
       le_relevance_rank = es_relevance_rank link,
       le_quote_excerpt = es_quote_excerpt link,
       le_citation_note = es_citation_note link \<rparr>"

text \<open>The in-memory branch of \<open>getSourceById\<close>, which the source writes out twice.\<close>

definition getSourceByIdFromDemo :: "DemoDataset \<Rightarrow> string \<Rightarrow> SourceDetail option" where
  "getSourceByIdFromDemo dataset sourceId =
     (case List.find (\<lambda>entry. s_id entry = sourceId) (sources dataset) of
        None \<Rightarrow> None
      | Some source \<Rightarrow>
          (let links = sortBy (\<lambda>a b. es_relevance_rank b - es_relevance_rank a)
                         (filter (\<lambda>entry. es_source_id entry = sourceId) (eventSources dataset));
               linkedEvents =
                 sortBy (\<lambda>a b. localeCompare (le_event_date b) (le_event_date a))
                   (List.map_filter
                      (\<lambda>link.
                         case List.find (\<lambda>entry. e_id entry = es_event_id link
                                                  \<and> e_status entry = Published) (events dataset) of
                           None \<Rightarrow> None
                         | Some event \<Rightarrow> Some (linkedEvent event link))
                      links)
           in Some \<lparr> sd_source = source, sd_linked_events = linkedEvents \<rparr>))"

text \<open>
  The two queries of the live branch: the source row, then
  \<open>event_sources es JOIN events e ON e.id = es.event_id\<close> with
  \<open>ORDER BY e.event_date DESC, es.relevance_rank ASC\<close>.
\<close>

definition linkedEventOrder :: "SourceLinkedEvent \<Rightarrow> SourceLinkedEvent \<Rightarrow> int" where
  "linkedEventOrder a b =
     (if le_event_date a \<noteq> le_event_date b then defaultCompare (le_event_date b) (le_event_date a)
      else le_relevance_rank a - le_relevance_rank b)"

definition linkedEventRows :: "DemoDataset \<Rightarrow> string \<Rightarrow> SourceLinkedEvent list" where
  "linkedEventRows db sourceId =
     concat (map (\<lambda>es. map (\<lambda>e. linkedEvent e es)
                          (filter (\<lambda>e. e_id e = es_event_id es \<and> e_status e = Published)
                             (events db)))
               (filter (\<lambda>es. es_source_id es = sourceId) (eventSources db)))"

definition getSourceByIdQuery :: "DemoDataset \<Rightarrow> string \<Rightarrow> SourceDetail option" where
  "getSourceByIdQuery db sourceId =
     (case filter (\<lambda>row. s_id row = sourceId) (sources db) of
        [] \<Rightarrow> None
      | source # others \<Rightarrow>
          Some \<lparr> sd_source = source,
                 sd_linked_events = sortBy linkedEventOrder (linkedEventRows db sourceId) \<rparr>)"

definition getSourceById ::
  "env \<Rightarrow> LiveStore \<Rightarrow> DemoDataset \<Rightarrow> string \<Rightarrow> jsval + SourceDetail option" where
  "getSourceById e store dataset sourceId =
     (if \<not> hasDatabaseConfig e then Inr (getSourceByIdFromDemo dataset sourceId)
      else
        (case store of
           Reachable db \<Rightarrow> Inr (getSourceByIdQuery db sourceId)
         | Unreachable error \<Rightarrow>
             if isDatabaseUnavailableError error
             then Inr (getSourceByIdFromDemo dataset sourceId)
             else Inl error))"

text \<open>\<open>GET /api/v1/sources/:id\<close> (sources/[id]/route.ts).\<close>

definition GET_source ::
  "env \<Rightarrow> LiveStore \<Rightarrow> DemoDataset \<Rightarrow> string \<Rightarrow> SourceDetail ApiResponse" where
  "GET_source e store dataset ident =
     (if \<not> isValidUuid ident then badRequest ''id must be a UUID''
      else
        (case getSourceById e store dataset ident of
           Inr None \<Rightarrow> notFound ''Source not found''
         | Inr (Some source) \<Rightarrow> Ok source
         | Inl error \<Rightarrow> serverError (toErrorMessage error)))"

section \<open>Event detail (events.ts)\<close>

record EventSource =
  src_id :: string
  src_source_name :: string
  src_source_url :: string
  src_source_type :: DemoSourceType
  src_publisher :: "string option"
  src_publication_or_snapshot_date :: "string option"
  src_access_date :: "string option"
  src_rights_note :: "string option"
  src_notes_on_reliability :: "string option"
  src_quote_excerpt :: "string option"
  src_citation_note :: "string option"
  src_relevance_rank :: int

record EventTimeline =
  etl_id :: string
  etl_title :: string
  etl_slug :: string
  etl_sequence_no :: int

record EventDetail =
  d_id :: string
  d_slug :: string
  d_title :: string
  d_event_date :: string
  d_region :: string
  d_category :: string
  d_summary :: string
  d_impact :: string
  d_importance_score :: int
  d_confidence_score :: int
  d_published_at :: "string option"
  d_tags :: "string list"
  d_sources :: "EventSource list"
  d_timelines :: "EventTimeline list"

definition eventSource :: "DemoSourceRecord \<Rightarrow> DemoEventSourceRecord \<Rightarrow> EventSource" where
  "eventSource source link =
     \<lparr> src_id = s_id source,
       src_source_name = s_source_name source,
       src_source_url = s_source_url source,
       src_source_type = s_source_type source,
       src_publisher = s_publisher source,
       src_publication_or_snapshot_date = s_publication_or_snapshot_date source,
       src_access_date = s_access_date source,
       src_rights_note = s_rights_note source,
       src_notes_on_reliability = s_notes_on_reliability source,
       src_quote_excerpt = es_quote_excerpt link,
       src_citation_note = es_citation_note link,
       src_relevance_rank = es_relevance_rank link \<rparr>"

definition getPublishedEventBySlugFromDemo :: "DemoDataset \<Rightarrow> string \<Rightarrow> EventDetail option" where
  "getPublishedEventBySlugFromDemo dataset slug =
     (case List.find (\<lambda>entry. e_slug entry = slug \<and> e_status entry = Published)
             (events dataset) of
        None \<Rightarrow> None
      | Some event \<Rightarrow>
          (let tagIds = map et_tag_id
                          (filter (\<lambda>entry. et_event_id entry = e_id event) (eventTags dataset));
               tagSlugs = sortBy defaultCompare
                            (map tag_slug
                               (filter (\<lambda>entry. tag_id entry \<in> set tagIds) (tags dataset)));
               sourceLinks = sortBy (\<lambda>a b. es_relevance_rank a - es_relevance_rank b)
                               (filter (\<lambda>entry. es_event_id entry = e_id event)
                                  (eventSources dataset));
               sourceRows =
                 List.map_filter
                   (\<lambda>link.
                      case List.find (\<lambda>entry. s_id entry = es_source_id link) (sources dataset) of
                        None \<Rightarrow> None
                      | Some source \<Rightarrow> Some (eventSource source link))
                   sourceLinks;
               timelineLinks = sortBy (\<lambda>a b. te_sequence_no a - te_sequence_no b)
                                 (filter (\<lambda>entry. te_event_id entry = e_id event)
                                    (timelineEvents dataset));
               timelineRows =
                 List.map_filter
                   (\<lambda>link.
                      case List.find (\<lambda>entry. tl_id entry = te_timeline_id link)
                             (timelines dataset) of
                        None \<Rightarrow> None
                      | Some timeline \<Rightarrow>
                          Some \<lparr> etl_id = tl_id timeline, etl_title = tl_title timeline,
                                 etl_slug = tl_slug timeline,
                                 etl_sequence_no = te_sequence_no link \<rparr>)
                   timelineLinks
           in Some \<lparr> d_id = e_id event,
                      d_slug = e_slug event,
                      d_title = e_title event,
                      d_event_date = e_event_date event,
                      d_region = e_region event,
                      d_category = e_category event,
                      d_summary = e_summary event,
                      d_impact = e_impact event,
                      d_importance_score = e_importance_score event,
                      d_confidence_score = e_confidence_score event,
                      d_published_at = e_published_at event,
                      d_tags = tagSlugs,
                      d_sources = sourceRows,
                      d_timelines = timelineRows \<rparr>))"

section \<open>Timelines (timelines.ts)\<close>

record TimelineListItem =
  tli_id :: string
  tli_title :: string
  tli_slug :: string
  tli_description :: "string option"
  tli_event_count :: int
  tli_first_event_date :: "string option"
  tli_last_event_date :: "string option"

record TimelineEventItem =
  tei_id :: string
  tei_slug :: string
  tei_title :: string
  tei_event_date :: string
  tei_region :: string
  tei_category :: string
  tei_summary :: string
  tei_importance_score :: int
  tei_confidence_score :: int
  tei_sequence_no :: int

record TimelineDetail =
  td_id :: string
  td_title :: string
  td_slug :: string
  td_description :: "string option"
  td_created_at :: string
  td_updated_at :: string
  td_events :: "TimelineEventItem list"

text \<open>
  The in-memory branch of \<open>listTimelinesPublic\<close>, which the source writes out twice (for
  a store that is not configured, and after an unavailability error). \<open>timelineMembers\<close>
  is its list \<open>members\<close> for one timeline. The list is sorted by title with
  \<open>localeCompare\<close>, which on titles follows the collation of the runtime's locale: the
  comparison is the parameter \<open>collate\<close>.
\<close>

definition timelineMembers :: "DemoDataset \<Rightarrow> DemoTimelineRecord \<Rightarrow> DemoEventRecord list" where
  "timelineMembers dataset timeline =
     (let publishedEventById =
            newMap (map (\<lambda>event. (e_id event, event))
                      (filter (\<lambda>event. e_status event = Published) (events dataset)))
      in List.map_filter (\<lambda>entry. mapGet publishedEventById (te_event_id entry))
           (filter (\<lambda>entry. te_timeline_id entry = tl_id timeline) (timelineEvents dataset)))"

definition timelineListItem :: "DemoDataset \<Rightarrow> DemoTimelineRecord \<Rightarrow> TimelineListItem" where
  "timelineListItem dataset timeline =
     (let members = timelineMembers dataset timeline;
          dates = sortBy defaultCompare (map e_event_date members)
      in \<lparr> tli_id = tl_id timeline,
           tli_title = tl_title timeline,
           tli_slug = tl_slug timeline,
           tli_description = tl_description timeline,
           tli_event_count = int (length members),
           tli_first_event_date = (case dates of [] \<Rightarrow> None | first # others \<Rightarrow> Some first),
           tli_last_event_date = (if 0 < length dates then Some (last dates) else None) \<rparr>)"

definition listTimelinesPublicFromDemo ::
  "(string \<Rightarrow> string \<Rightarrow> int) \<Rightarrow> DemoDataset \<Rightarrow> TimelineListItem list" where
  "listTimelinesPublicFromDemo collate dataset =
     sortBy (\<lambda>a b. collate (tli_title a) (tli_title b))
       (map (timelineListItem dataset) (timelines dataset))"

text \<open>The in-memory branch of \<open>getTimelineBySlug\<close>, also written out twice.\<close>

definition timelineEventItem :: "DemoEventRecord \<Rightarrow> DemoTimelineEventRecord \<Rightarrow> TimelineEventItem" where
  "timelineEventItem event entry =
     \<lparr> tei_id = e_id event,
       tei_slug = e_slug event,
       tei_title = e_title event,
       tei_event_date = e_event_date event,
       tei_region = e_region event,
       tei_category = e_category event,
       tei_summary = e_summary event,
       tei_importance_score = e_importance_score event,
       tei_confidence_score = e_confidence_score event,
       tei_sequence_no = te_sequence_no entry \<rparr>"

definition getTimelineBySlugFromDemo :: "DemoDataset \<Rightarrow> string \<Rightarrow> TimelineDetail option" where
  "getTimelineBySlugFromDemo dataset slug =
     (case List.find (\<lambda>entry. tl_slug entry = slug) (timelines dataset) of
        None \<Rightarrow> None
      | Some timeline \<Rightarrow>
          (let shown =
                 List.map_filter
                   (\<lambda>entry.
                      case List.find (\<lambda>candidate. e_id candidate = te_event_id entry
                                                   \<and> e_status candidate = Published)
                             (events dataset) of
                        None \<Rightarrow> None
                      | Some event \<Rightarrow> Some (timelineEventItem event entry))
                   (sortBy (\<lambda>a b. te_sequence_no a - te_sequence_no b)
                      (filter (\<lambda>entry. te_timeline_id entry = tl_id timeline)
                         (timelineEvents dataset)))
           in Some \<lparr> td_id = tl_id timeline,
                      td_title = tl_title timeline,
                      td_slug = tl_slug timeline,
                      td_description = tl_description timeline,
                      td_created_at = tl_created_at timeline,
                      td_updated_at = tl_updated_at timeline,
                      td_events = shown \<rparr>))"

section \<open>Predicates of the claims\<close>

text \<open>An identifier refers to a published event of the dataset.\<close>

definition refersToPublished :: "DemoDataset \<Rightarrow> string \<Rightarrow> bool" where
  "refersToPublished d eventId =
     list_ex (\<lambda>e. e_id e = eventId \<and> e_status e = Published) (events d)"









text \<open>The linked events of a result; none when the source is not found.\<close>

definition linkedEventsOf :: "SourceDetail option \<Rightarrow> SourceLinkedEvent list" where
  "linkedEventsOf result = (case result of Some r \<Rightarrow> sd_linked_events r | None \<Rightarrow> [])"

text \<open>
  The columns of an event that every view of it shows, and these columns as an item of
  the event list, a linked event of a source, an event of a timeline detail and an
  event detail show them.
\<close>

type_synonym EventColumns = "string \<times> string \<times> string \<times> string \<times> string \<times> string \<times> string"

definition eventColumns :: "DemoEventRecord \<Rightarrow> EventColumns" where
  "eventColumns e =
     (e_id e, e_slug e, e_title e, e_event_date e, e_region e, e_category e, e_summary e)"

definition itemColumns :: "EventListItem \<Rightarrow> EventColumns" where
  "itemColumns item =
     (i_id item, i_slug item, i_title item, i_event_date item, i_region item, i_category item,
      i_summary item)"

definition linkedEventColumns :: "SourceLinkedEvent \<Rightarrow> EventColumns" where
  "linkedEventColumns le =
     (le_id le, le_slug le, le_title le, le_event_date le, le_region le, le_category le,
      le_summary le)"

definition timelineEventColumns :: "TimelineEventItem \<Rightarrow> EventColumns" where
  "timelineEventColumns item =
     (tei_id item, tei_slug item, tei_title item, tei_event_date item, tei_region item,
      tei_category item, tei_summary item)"

definition detailColumns :: "EventDetail \<Rightarrow> EventColumns" where
  "detailColumns detail =
     (d_id detail, d_slug detail, d_title detail, d_event_date detail, d_region detail,
      d_category detail, d_summary detail)"

text \<open>The columns are those of a published event of the dataset.\<close>

definition showsPublished :: "DemoDataset \<Rightarrow> EventColumns \<Rightarrow> bool" where
  "showsPublished d columns =
     list_ex (\<lambda>e. e_status e = Published \<and> eventColumns e = columns) (events d)"

text \<open>The event of a detail and the events of a timeline detail; none when not found.\<close>

definition detailOf :: "EventDetail option \<Rightarrow> EventDetail list" where
  "detailOf result = (case result of Some d \<Rightarrow> [d] | None \<Rightarrow> [])"

definition timelineEventsOf :: "TimelineDetail option \<Rightarrow> TimelineEventItem list" where
  "timelineEventsOf result = (case result of Some t \<Rightarrow> td_events t | None \<Rightarrow> [])"

text \<open>The dates that an item of the timeline list shows.\<close>

definition shownDates :: "TimelineListItem \<Rightarrow> string list" where
  "shownDates item =
     (case tli_first_event_date item of Some d \<Rightarrow> [d] | None \<Rightarrow> [])
     @ (case tli_last_event_date item of Some d \<Rightarrow> [d] | None \<Rightarrow> [])"

text \<open>The memberships of a timeline that refer to a published event.\<close>

definition publishedMemberships :: "DemoDataset \<Rightarrow> string \<Rightarrow> DemoTimelineEventRecord list" where
  "publishedMemberships d timelineId =
     filter (\<lambda>entry. te_timeline_id entry = timelineId \<and> refersToPublished d (te_event_id entry))
       (timelineEvents d)"

text \<open>Linked events in the order of their dates, latest first.\<close>

definition byDateDesc :: "SourceLinkedEvent list \<Rightarrow> bool" where
  "byDateDesc les = sorted_wrt (\<lambda>a b. le_event_date b \<le> le_event_date a) les"

text \<open>Linked events in the order the specification words: relevance rank, highest first.\<close>

definition byRankDesc :: "SourceLinkedEvent list \<Rightarrow> bool" where
  "byRankDesc les = sorted_wrt (\<lambda>a b. le_relevance_rank b \<le> le_relevance_rank a) les"

text \<open>
  A source detail for the requested id: the source is one of the dataset with that
  id, and its linked events are the rows of published events joined to the source
  through the dataset's links, latest date first.
\<close>

definition sourceDetailFor :: "DemoDataset \<Rightarrow> string \<Rightarrow> SourceDetail option \<Rightarrow> bool" where
  "sourceDetailFor d sourceId result =
     (case result of
        None \<Rightarrow> False
      | Some r \<Rightarrow>
          s_id (sd_source r) = sourceId
          \<and> list_ex (\<lambda>source. source = sd_source r) (sources d)
          \<and> set (sd_linked_events r) = set (linkedEventRows d sourceId)
          \<and> list_all (\<lambda>le. refersToPublished d (le_id le)) (sd_linked_events r)
          \<and> byDateDesc (sd_linked_events r))"

section \<open>Example data\<close>

definition exSource :: "string \<Rightarrow> string \<Rightarrow> SeedSource" where
  "exSource name url =
     \<lparr> ss_source_name = name, ss_source_url = url, ss_source_type = Some ''official'',
       ss_publisher = None, ss_publication_or_snapshot_date = None, ss_access_date = None,
       ss_rights_note = None, ss_notes_on_reliability = None \<rparr>"

definition exMainFile :: SeedPayload where
  "exMainFile =
     \<lparr> p_sources = Some [exSource ''Fed'' ''https://fed.example/a''],
       p_events = None, p_event_sources = Some [] \<rparr>"

definition exPack :: SeedPayload where
  "exPack =
     \<lparr> p_sources = Some [exSource ''Fed (new)'' '' https://fed.example/a'',
                         exSource ''BIS'' ''https://bis.example/b''],
       p_events = Some [], p_event_sources = None \<rparr>"

text \<open>
  A stand-in for the digest: 64 hexadecimal digits read off the seed, last character
  first, and padded with zeros.
\<close>

definition toyDigest :: "string \<Rightarrow> string" where
  "toyDigest seed =
     take 64 (filter isHexDigit (rev seed)
              @ ''0000000000000000000000000000000000000000000000000000000000000000'')"

definition exPlatform :: platform where
  "exPlatform = \<lparr> sha256hex = toyDigest, nfkdStripMarks = (\<lambda>s. s) \<rparr>"

definition exEvent :: "string \<Rightarrow> string \<Rightarrow> int \<Rightarrow> DemoEventStatus \<Rightarrow> SeedEvent" where
  "exEvent slug date importance status =
     \<lparr> se_slug = Some slug, se_title = ''Title'', se_event_date = date,
       se_region = ''Global'', se_category = ''Markets'', se_summary = ''Summary'',
       se_impact = ''Impact'', se_importance_score = importance,
       se_confidence_score = None, se_status = Some status \<rparr>"

definition exLink :: "string \<Rightarrow> string \<Rightarrow> SeedEventSource" where
  "exLink slug url =
     \<lparr> sl_event_slug = slug, sl_source_url = url, sl_relevance_rank = None,
       sl_quote_excerpt = None, sl_citation_note = None \<rparr>"

definition exSeed :: SeedPayload where
  "exSeed =
     \<lparr> p_sources = Some [exSource ''Fed'' ''https://fed.example/a''],
       p_events = Some [exEvent ''crash-of-1929'' ''1929-10-24'' 5 Published,
                        exEvent ''draft-note'' ''2008-09-15'' 2 Draft],
       p_event_sources = Some [exLink ''Crash of 1929'' ''https://fed.example/a'',
                               exLink ''crash-of-1929'' ''https://gone.example/x'',
                               exLink ''no-such-event'' ''https://fed.example/a''] \<rparr>"

text \<open>
  A draft and a published event whose slugs differ in case only: they get the same
  normalised slug and the same id.
\<close>

definition exTwinsSeed :: SeedPayload where
  "exTwinsSeed =
     \<lparr> p_sources = Some [],
       p_events = Some [exEvent ''crash-of-1929'' ''1929-10-24'' 5 Published,
                        (exEvent ''Crash-of-1929'' ''1929-10-24'' 5 Draft)
                          \<lparr> se_category := ''Secret'' \<rparr>],
       p_event_sources = Some [] \<rparr>"

definition exEnv :: env where
  "exEnv = \<lparr> DATABASE_URL = Some ''postgres://db.internal:5432/finance'' \<rparr>"

definition exInput :: CreateEventInput where
  "exInput =
     \<lparr> ci_slug = None, ci_title = ''Crash of 1929'', ci_event_date = ''1929-10-24'',
       ci_region = ''US'', ci_category = ''Markets'', ci_summary = ''Prices fell.'',
       ci_impact = ''Panic selling.'', ci_importance_score = 5, ci_confidence_score = None \<rparr>"

text \<open>The error of a socket that the server closed, as Node.js raises it.\<close>

definition exResetError :: jsval where
  "exResetError = JError 1 ''read ECONNRESET'' (JStr ''ECONNRESET'') JUndefined JUndefined"

text \<open>
  The error of a refused connection to a host with two addresses, as Node.js 20 raises
  it: an aggregate with an empty message, the code and the two attempts.
\<close>

definition exRefusedAggregate :: jsval where
  "exRefusedAggregate =
     JError 1 [] (JStr ''ECONNREFUSED'') JUndefined
       (JArr 2 [JError 3 ''connect ECONNREFUSED ::1:5432'' (JStr ''ECONNREFUSED'') JUndefined JUndefined,
              JError 4 ''connect ECONNREFUSED 127.0.0.1:5432'' (JStr ''ECONNREFUSED'')
                JUndefined JUndefined])"

definition exUnsetEnv :: env where
  "exUnsetEnv = \<lparr> DATABASE_URL = None \<rparr>"





definition exNoFilters :: ListEventsFilters where
  "exNoFilters =
     \<lparr> f_date = None, f_from = None, f_to = None, f_category = None, f_region = None,
       f_tag = None, f_importanceMin = None, f_q = None,
       f_page = 1, f_pageSize = 20, f_sort = DateDesc \<rparr>"


definition exTiesSeed :: SeedPayload where
  "exTiesSeed =
     \<lparr> p_sources = Some [],
       p_events = Some [exEvent ''black-monday-asia'' ''1987-10-19'' 2 Published,
                        exEvent ''black-monday-us'' ''1987-10-19'' 5 Published],
       p_event_sources = None \<rparr>"

definition exRanksSeed :: SeedPayload where
  "exRanksSeed =
     \<lparr> p_sources = Some [exSource ''Fed'' ''https://fed.example/a''],
       p_events = Some [exEvent ''crash-of-1929'' ''1929-10-24'' 5 Published,
                        exEvent ''lehman'' ''2008-09-15'' 5 Published],
       p_event_sources = Some
         [(exLink ''crash-of-1929'' ''https://fed.example/a'') \<lparr> sl_relevance_rank := Some 9 \<rparr>,
          (exLink ''lehman'' ''https://fed.example/a'') \<lparr> sl_relevance_rank := Some 1 \<rparr>] \<rparr>"

section \<open>Properties of the import merge fallback\<close>

lemma mapSet_keys:
  "map fst (mapSet m k v) = (if k \<in> set (map fst m) then map fst m else map fst m @ [k])"
  by (induction m k v rule: mapSet.induct) auto

lemma mapSet_distinct: "distinct (map fst m) \<Longrightarrow> distinct (map fst (mapSet m k v))"
  by (simp add: mapSet_keys)

lemma mapSet_lookup: "map_of (mapSet m k v) = (map_of m)(k \<mapsto> v)"
  by (induction m k v rule: mapSet.induct) auto

lemma foldSet_distinct:
  "distinct (map fst m) \<Longrightarrow>
   distinct (map fst (foldl (\<lambda>m item. mapSet m (keyOf item) item) m xs))"
  by (induction xs arbitrary: m) (simp_all add: mapSet_distinct)

lemma foldSet_keys:
  "set (map fst (foldl (\<lambda>m item. mapSet m (keyOf item) item) m xs))
     = set (map fst m) \<union> keyOf ` set xs"
proof (induction xs arbitrary: m)
  case Nil
  then show ?case by simp
next
  case (Cons x xs)
  have "set (map fst (mapSet m (keyOf x) x)) = insert (keyOf x) (set (map fst m))"
    by (auto simp: mapSet_keys)
  then show ?case using Cons.IH [of "mapSet m (keyOf x) x"] by auto
qed

lemma foldSet_keyed:
  "\<forall>(k, v) \<in> set m. keyOf v = k \<Longrightarrow>
   \<forall>(k, v) \<in> set (foldl (\<lambda>m item. mapSet m (keyOf item) item) m xs). keyOf v = k"
proof (induction xs arbitrary: m)
  case Nil
  then show ?case by simp
next
  case (Cons x xs)
  have "\<forall>(k, v) \<in> set (mapSet m (keyOf x) x). keyOf v = k"
    using Cons.prems by (induction m) (auto split: if_splits)
  then show ?case using Cons.IH by simp
qed

text \<open>Setting keys that are all present keeps the key order.\<close>

lemma foldSet_keys_present:
  "keyOf ` set xs \<subseteq> set (map fst m) \<Longrightarrow>
   map fst (foldl (\<lambda>m item. mapSet m (keyOf item) item) m xs) = map fst m"
proof (induction xs arbitrary: m)
  case Nil
  then show ?case by simp
next
  case (Cons x xs)
  have k: "map fst (mapSet m (keyOf x) x) = map fst m"
    using Cons.prems by (simp add: mapSet_keys)
  have "keyOf ` set xs \<subseteq> set (map fst (mapSet m (keyOf x) x))"
    using Cons.prems k by simp
  from Cons.IH [OF this] k show ?case by simp
qed

lemma find_app:
  "List.find P (xs @ ys) = (case List.find P xs of Some x \<Rightarrow> Some x | None \<Rightarrow> List.find P ys)"
  by (induction xs) auto

text \<open>The value found under a key after a run of \<open>set\<close> calls.\<close>

lemma foldSet_lookup:
  "map_of (foldl (\<lambda>m item. mapSet m (keyOf item) item) m xs) k
     = (case List.find (\<lambda>x. keyOf x = k) (rev xs) of
          Some x \<Rightarrow> Some x | None \<Rightarrow> map_of m k)"
proof (induction xs arbitrary: m)
  case Nil
  then show ?case by simp
next
  case (Cons x xs)
  show ?case
    by (simp add: Cons.IH mapSet_lookup find_app split: option.splits)
qed

lemma alist_eqI:
  "distinct (map fst a) \<Longrightarrow> map fst a = map fst b \<Longrightarrow> map_of a = map_of b \<Longrightarrow> a = b"
proof (induction a arbitrary: b)
  case Nil
  then show ?case by simp
next
  case (Cons p a)
  then obtain q b' where b: "b = q # b'" by (cases b) auto
  obtain k v where p: "p = (k, v)" by (cases p)
  obtain k' v' where q: "q = (k', v')" by (cases q)
  from Cons.prems(2) b p q have kk: "k' = k" and keys: "map fst a = map fst b'" by auto
  from Cons.prems(3) b p q kk have vv: "v' = v"
    by (metis fun_upd_same map_of.simps(2) option.inject prod.sel(1) prod.sel(2))
  have notin: "k \<notin> set (map fst a)" using Cons.prems(1) p by simp
  have "map_of a = map_of b'"
  proof
    fix x
    show "map_of a x = map_of b' x"
    proof (cases "x = k")
      case True
      then show ?thesis
        using notin keys by (metis map_of_eq_None_iff set_map)
    next
      case False
      then show ?thesis
        using Cons.prems(3) b p q kk by (metis fun_upd_other map_of.simps(2) prod.sel(1))
    qed
  qed
  with Cons.IH [of b'] Cons.prems(1) keys have "a = b'" by simp
  with b p q kk vv show ?case by simp
qed

text \<open>Rebuilding a map from its own values, in order, gives the map back.\<close>

lemma foldSet_rebuild:
  "distinct (map fst (pre @ m)) \<Longrightarrow> \<forall>(k, v) \<in> set m. keyOf v = k \<Longrightarrow>
   foldl (\<lambda>m item. mapSet m (keyOf item) item) pre (map snd m) = pre @ m"
proof (induction m arbitrary: pre)
  case Nil
  then show ?case by simp
next
  case (Cons p m)
  obtain k v where p: "p = (k, v)" by (cases p)
  have kv: "keyOf v = k" using Cons.prems(2) p by simp
  have "k \<notin> set (map fst pre)" using Cons.prems(1) p by auto
  then have app: "mapSet pre k v = pre @ [(k, v)]"
    by (induction pre) auto
  have "distinct (map fst ((pre @ [(k, v)]) @ m))" using Cons.prems(1) p by simp
  moreover have "\<forall>(k, v) \<in> set m. keyOf v = k" using Cons.prems(2) by simp
  ultimately have
    "foldl (\<lambda>m item. mapSet m (keyOf item) item) (pre @ [(k, v)]) (map snd m)
       = (pre @ [(k, v)]) @ m"
    by (rule Cons.IH)
  then show ?case using p kv app by simp
qed

lemma mergeByKey_again:
  "mergeByKey (mergeByKey base incoming keyOf) incoming keyOf = mergeByKey base incoming keyOf"
proof -
  let ?F = "\<lambda>m xs. foldl (\<lambda>m item. mapSet m (keyOf item) item) m xs"
  let ?M = "?F (?F [] base) incoming"
  have dM: "distinct (map fst ?M)"
    by (intro foldSet_distinct) simp
  have kM: "\<forall>(k, v) \<in> set ?M. keyOf v = k"
    by (intro foldSet_keyed) simp
  have rebuild: "?F [] (map snd ?M) = ?M"
    using foldSet_rebuild [of "[]" ?M keyOf] dM kM by simp
  have sub: "keyOf ` set incoming \<subseteq> set (map fst ?M)"
    using foldSet_keys [of keyOf "?F [] base" incoming] by auto
  have keys: "map fst (?F ?M incoming) = map fst ?M"
    by (rule foldSet_keys_present [OF sub])
  have look: "map_of (?F ?M incoming) = map_of ?M"
  proof
    fix k
    show "map_of (?F ?M incoming) k = map_of ?M k"
      by (simp add: foldSet_lookup split: option.splits)
  qed
  have "?F ?M incoming = ?M"
    by (rule sym, rule alist_eqI [OF dM keys [symmetric] look [symmetric]])
  then show ?thesis
    by (simp add: mergeByKey_def mapValues_def rebuild)
qed

text \<open>
  C9. Applying the import-merge fallback a second time with the same payload from a
  file other than the main seed leaves the main seed file as the first application
  wrote it: its three arrays keep their lengths (and their contents), and the second
  report has the same counts before and after.
\<close>

theorem applyDemoFallback_twice_unchanged:
  "filePath \<noteq> mainSeedPath \<Longrightarrow>
   applyDemoFallback filePath mainSeedPath mainFile payload = (r1, main1) \<Longrightarrow>
   applyDemoFallback filePath mainSeedPath main1 payload = (r2, main2) \<Longrightarrow>
     length (asArray (p_sources main2)) = length (asArray (p_sources main1))
   \<and> length (asArray (p_events main2)) = length (asArray (p_events main1))
   \<and> length (asArray (p_event_sources main2)) = length (asArray (p_event_sources main1))
   \<and> main2 = main1
   \<and> r2 = MergedIntoMainSeed (summarize main1) (summarize main1)"
proof -
  assume ne: "filePath \<noteq> mainSeedPath"
    and a1: "applyDemoFallback filePath mainSeedPath mainFile payload = (r1, main1)"
    and a2: "applyDemoFallback filePath mainSeedPath main1 payload = (r2, main2)"
  from a1 ne have m1: "main1 = mergedSeed mainFile payload"
    by (simp add: applyDemoFallback_def Let_def)
  from a2 ne have
    "(MergedIntoMainSeed (summarize main1) (summarize (mergedSeed main1 payload)),
      mergedSeed main1 payload) = (r2, main2)"
    by (auto simp add: applyDemoFallback_def Let_def)
  then have m2: "main2 = mergedSeed main1 payload"
    and r2: "r2 = MergedIntoMainSeed (summarize main1) (summarize (mergedSeed main1 payload))"
    by blast+
  have "mergedSeed (mergedSeed mainFile payload) payload = mergedSeed mainFile payload"
    by (simp add: mergedSeed_def asArray_def mergeByKey_again)
  with m1 m2 have eq: "main2 = main1" by simp
  from r2 m2 eq have "r2 = MergedIntoMainSeed (summarize main1) (summarize main1)" by simp
  with eq show ?thesis by simp
qed

theorem applyDemoFallback_twice_unchanged_witness:
  "snd (applyDemoFallback ''seeds/pack.json'' ''seeds/main.json''
          (snd (applyDemoFallback ''seeds/pack.json'' ''seeds/main.json'' exMainFile exPack))
          exPack)
     = snd (applyDemoFallback ''seeds/pack.json'' ''seeds/main.json'' exMainFile exPack)
   \<and> map ss_source_name
        (asArray (p_sources (snd (applyDemoFallback ''seeds/pack.json'' ''seeds/main.json''
           exMainFile exPack))))
     = [''Fed (new)'', ''BIS'']"
proof -
  have ne: "''seeds/pack.json'' \<noteq> ''seeds/main.json''" by simp
  have ev: "map ss_source_name
        (asArray (p_sources (snd (applyDemoFallback ''seeds/pack.json'' ''seeds/main.json''
           exMainFile exPack))))
     = [''Fed (new)'', ''BIS'']"
    by (simp add: applyDemoFallback_def mergedSeed_def mergeByKey_def mapValues_def
        asArray_def exMainFile_def exPack_def exSource_def sourceKey_def trim_def
        isSpace_def Let_def)
  from applyDemoFallback_twice_unchanged [OF ne surjective_pairing surjective_pairing] ev
  show ?thesis by blast
qed

section \<open>Properties of the demo dataset builder\<close>

lemma toyDigest_ok: "length (toyDigest seed) = 64 \<and> list_all isHexDigit (toyDigest seed)"
proof -
  have z: "list_all isHexDigit ''0000000000000000000000000000000000000000000000000000000000000000''"
    by (simp add: isHexDigit_def)
  have "list_all isHexDigit (filter isHexDigit (rev seed)
          @ ''0000000000000000000000000000000000000000000000000000000000000000'')"
    using z by (simp add: list_all_iff)
  then have "list_all isHexDigit (toyDigest seed)"
    unfolding toyDigest_def list_all_iff by (meson in_set_takeD)
  moreover have "length (toyDigest seed) = 64"
    by (simp add: toyDigest_def)
  ultimately show ?thesis by blast
qed

lemma exPlatform_ok:
  "length (sha256hex exPlatform seed) = 64 \<and> list_all isHexDigit (sha256hex exPlatform seed)"
  by (simp add: exPlatform_def toyDigest_ok)

lemma uuid_shape:
  assumes "length a = 8" "length b = 4" "length c = 3" "length d = 3" "length e = 12"
    and "list_all isHexDigit a" "list_all isHexDigit b" "list_all isHexDigit c"
        "list_all isHexDigit d" "list_all isHexDigit e"
  shows "isValidUuid (a @ ''-'' @ b @ ''-4'' @ c @ ''-a'' @ d @ ''-'' @ e)"
  using assms by (simp add: isValidUuid_def slice_def)

lemma stableUuid_shape:
  assumes "length (sha256hex P seed) = 64" "list_all isHexDigit (sha256hex P seed)"
  shows "isValidUuid (stableUuid P seed)"
proof -
  let ?h = "sha256hex P seed"
  have ha: "\<And>a b. list_all isHexDigit (slice ?h a b)"
    using assms(2) unfolding slice_def list_all_iff by (meson in_set_dropD in_set_takeD)
  show ?thesis unfolding stableUuid_def Let_def
    by (rule uuid_shape) (simp_all add: ha, simp_all add: slice_def assms(1))
qed

lemma stableUuid_digits:
  assumes "length (sha256hex P seed) = 64"
  shows "slice (stableUuid P seed) 14 15 = ''4'' \<and> slice (stableUuid P seed) 19 20 = ''a''"
  using assms by (simp add: stableUuid_def Let_def slice_def)

lemma stableUuid_nonempty: "stableUuid P seed \<noteq> []"
  by (simp add: stableUuid_def Let_def)

lemma mapSet_subset: "set (mapSet m k v) \<subseteq> insert (k, v) (set m)"
  by (induction m k v rule: mapSet.induct) auto

lemma buildTagsStep_ids:
  assumes "\<forall>(k, t) \<in> set (fst st). tag_id t \<in> range (stableUuid P)"
  shows "\<forall>(k, t) \<in> set (fst (buildTagsStep P st ev)). tag_id t \<in> range (stableUuid P)"
proof -
  let ?slug = "normalizeSlug P (e_category ev)"
  let ?tag = "\<lparr> tag_id = stableUuid P (''tag:'' @ ?slug), tag_slug = ?slug,
                tag_name = e_category ev \<rparr>"
  have "fst (buildTagsStep P st ev) = fst st \<or> fst (buildTagsStep P st ev) = mapSet (fst st) ?slug ?tag"
    by (simp add: buildTagsStep_def Let_def split: option.splits)
  moreover have "\<forall>(k, t) \<in> set (mapSet (fst st) ?slug ?tag). tag_id t \<in> range (stableUuid P)"
    using assms mapSet_subset [of "fst st" ?slug ?tag] by auto
  ultimately show ?thesis using assms by auto
qed

lemma buildTags_fold_ids:
  "\<forall>(k, t) \<in> set (fst st). tag_id t \<in> range (stableUuid P) \<Longrightarrow>
   \<forall>(k, t) \<in> set (fst (foldl (buildTagsStep P) st evs)). tag_id t \<in> range (stableUuid P)"
proof (induction evs arbitrary: st)
  case Nil
  then show ?case by simp
next
  case (Cons ev evs)
  from Cons.IH [OF buildTagsStep_ids [OF Cons.prems]] show ?case by simp
qed

lemma buildTags_ids: "t \<in> set (fst (buildTags P evs)) \<Longrightarrow> tag_id t \<in> range (stableUuid P)"
  using buildTags_fold_ids [of "([], [])" P evs]
  by (auto simp: buildTags_def Let_def mapValues_def)

lemma buildTimelines_ids:
  "t \<in> set (fst (buildTimelines P now evs)) \<Longrightarrow> tl_id t \<in> range (stableUuid P)"
  by (auto simp: buildTimelines_def Let_def timelineRecord_def primaryTimeline_def
      crisisTimeline_def coldWarTimeline_def chinaUsTimeline_def chinaSovietTimeline_def
      chinaWarTimeline_def usWarTimeline_def ccpTimeline_def worldWarTwoTimeline_def)

text \<open>
  C10. Provided the digest is 64 hexadecimal digits, every identifier made by
  \<open>stableUuid\<close> is accepted by \<open>isValidUuid\<close>, with version digit 4 and variant
  digit a; so are the identifiers of all sources, events, tags and timelines of a built
  dataset.
\<close>

theorem stableUuid_isValidUuid:
  assumes "\<And>x. length (sha256hex P x) = 64 \<and> list_all isHexDigit (sha256hex P x)"
  shows "isValidUuid (stableUuid P seed)
       \<and> slice (stableUuid P seed) 14 15 = ''4'' \<and> slice (stableUuid P seed) 19 20 = ''a''
       \<and> list_all (\<lambda>s. isValidUuid (s_id s)) (sources (buildDataset P now payload))
       \<and> list_all (\<lambda>e. isValidUuid (e_id e)) (events (buildDataset P now payload))
       \<and> list_all (\<lambda>t. isValidUuid (tag_id t)) (tags (buildDataset P now payload))
       \<and> list_all (\<lambda>t. isValidUuid (tl_id t)) (timelines (buildDataset P now payload))
       \<and> list_all (\<lambda>s. GET_source e store (buildDataset P now payload) (s_id s)
                           \<noteq> badRequest ''id must be a UUID'')
           (sources (buildDataset P now payload))"
proof -
  have valid: "\<And>x. isValidUuid (stableUuid P x)"
    using assms stableUuid_shape by blast
  have digits: "slice (stableUuid P seed) 14 15 = ''4'' \<and> slice (stableUuid P seed) 19 20 = ''a''"
    using assms stableUuid_digits by blast
  have s: "list_all (\<lambda>s. isValidUuid (s_id s)) (sources (buildDataset P now payload))"
    by (simp add: buildDataset_def Let_def list_all_iff buildSource_def valid)
  have e: "list_all (\<lambda>e. isValidUuid (e_id e)) (events (buildDataset P now payload))"
    by (simp add: buildDataset_def Let_def list_all_iff buildEvent_def valid)
  have t: "list_all (\<lambda>t. isValidUuid (tag_id t)) (tags (buildDataset P now payload))"
    using buildTags_ids valid by (fastforce simp: buildDataset_def Let_def list_all_iff)
  have tl: "list_all (\<lambda>t. isValidUuid (tl_id t)) (timelines (buildDataset P now payload))"
    using buildTimelines_ids valid by (fastforce simp: buildDataset_def Let_def list_all_iff)
  have shape: "GET_source e store d ident \<noteq> badRequest ''id must be a UUID''"
    if "isValidUuid ident" for d ident
    using that
    by (simp add: GET_source_def badRequest_def notFound_def serverError_def
        split: sum.splits option.splits)
  have g: "list_all (\<lambda>s. GET_source e store (buildDataset P now payload) (s_id s)
                           \<noteq> badRequest ''id must be a UUID'')
           (sources (buildDataset P now payload))"
    using s shape unfolding list_all_iff by blast
  from valid digits s e t tl g show ?thesis by blast
qed

theorem stableUuid_isValidUuid_witness:
  "isValidUuid (stableUuid exPlatform ''source:https://fed.example/a'')
   \<and> stableUuid exPlatform ''source:https://fed.example/a''
       = ''aeaedefe-c000-4000-a000-000000000000''
   \<and> list_all (\<lambda>e. isValidUuid (e_id e)) (events (buildDataset exPlatform ''t0'' exSeed))
   \<and> map_option (\<lambda>detail. s_source_name (sd_source detail))
       (case GET_source exUnsetEnv (Unreachable JNull) (buildDataset exPlatform ''t0'' exSeed)
               ''aeaedefe-c000-4000-a000-000000000000'' of
          Ok detail \<Rightarrow> Some detail | _ \<Rightarrow> None) = Some ''Fed''"
proof -
  have "map_option (\<lambda>detail. s_source_name (sd_source detail))
       (case GET_source exUnsetEnv (Unreachable JNull) (buildDataset exPlatform ''t0'' exSeed)
               ''aeaedefe-c000-4000-a000-000000000000'' of
          Ok detail \<Rightarrow> Some detail | _ \<Rightarrow> None) = Some ''Fed''"
    by code_simp
  moreover
  have "stableUuid exPlatform ''source:https://fed.example/a''
       = ''aeaedefe-c000-4000-a000-000000000000''"
    by code_simp
  ultimately show ?thesis
    using stableUuid_isValidUuid [of exPlatform "''source:https://fed.example/a''" "''t0''" exSeed]
      exPlatform_ok
    by blast
qed

text \<open>
  C3. The identifiers of a built dataset depend on the seed content only: two builds of
  the same payload, whatever the clock reads at either, give the same identifier to
  every source (the hash of the namespace \<open>source:\<close> and its URL) and to every event
  (the hash of the namespace \<open>event:\<close> and its normalised slug, taken from the title
  when the seed has no slug).
\<close>

theorem buildDataset_ids_deterministic:
  "map s_id (sources (buildDataset P now1 payload))
     = map s_id (sources (buildDataset P now2 payload))
   \<and> map e_id (events (buildDataset P now1 payload))
     = map e_id (events (buildDataset P now2 payload))
   \<and> map s_id (sources (buildDataset P now1 payload))
     = map (\<lambda>source. stableUuid P (''source:'' @ ss_source_url source))
         (asArray (p_sources payload))
   \<and> map e_id (events (buildDataset P now1 payload))
     = map (\<lambda>event. stableUuid P (''event:'' @ normalizeSlug P
              (case se_slug event of Some s \<Rightarrow> s | None \<Rightarrow> se_title event)))
         (asArray (p_events payload))"
  by (simp add: buildDataset_def Let_def buildSource_def buildEvent_def comp_def)

theorem buildDataset_ids_deterministic_witness:
  "map e_id (events (buildDataset exPlatform ''2026-01-01T00:00:00.000Z'' exSeed))
     = map e_id (events (buildDataset exPlatform ''2027-06-30T12:00:00.000Z'' exSeed))
   \<and> map e_created_at (events (buildDataset exPlatform ''2026-01-01T00:00:00.000Z'' exSeed))
     \<noteq> map e_created_at (events (buildDataset exPlatform ''2027-06-30T12:00:00.000Z'' exSeed))"
proof -
  have "map e_created_at (events (buildDataset exPlatform ''2026-01-01T00:00:00.000Z'' exSeed))
     \<noteq> map e_created_at (events (buildDataset exPlatform ''2027-06-30T12:00:00.000Z'' exSeed))"
    by (simp add: buildDataset_def Let_def buildEvent_def exSeed_def asArray_def)
  with buildDataset_ids_deterministic
         [of exPlatform "''2026-01-01T00:00:00.000Z''" exSeed "''2027-06-30T12:00:00.000Z''"]
  show ?thesis by blast
qed

lemma newMap_lookup_gen:
  "map_of (foldl (\<lambda>m (k, v). mapSet m k v) m ps) = map_of m ++ map_of (rev ps)"
proof (induction ps arbitrary: m)
  case Nil
  then show ?case by simp
next
  case (Cons p ps)
  obtain k v where p: "p = (k, v)" by (cases p)
  show ?case
  proof
    fix x
    show "map_of (foldl (\<lambda>m (k, v). mapSet m k v) m (p # ps)) x
            = (map_of m ++ map_of (rev (p # ps))) x"
      by (simp add: Cons.IH p mapSet_lookup map_add_def split: option.splits)
  qed
qed

lemma mapGet_newMap_Some: "mapGet (newMap ps) k = Some v \<Longrightarrow> (k, v) \<in> set ps"
  by (auto simp: mapGet_def newMap_def newMap_lookup_gen dest: map_of_SomeD)

lemma mapGet_newMap_None: "mapGet (newMap ps) k = None \<longleftrightarrow> k \<notin> fst ` set ps"
  by (simp add: mapGet_def newMap_def newMap_lookup_gen map_of_eq_None_iff)

lemma buildLink_Some:
  assumes "buildLink P (newMap (map (\<lambda>event. (e_slug event, e_id event)) evs))
             (newMap (map (\<lambda>source. (s_source_url source, s_id source)) srcs)) link = Some row"
  shows "es_event_id row \<in> set (map e_id evs) \<and> es_source_id row \<in> set (map s_id srcs)"
proof -
  from assms obtain eid sid where
    e: "mapGet (newMap (map (\<lambda>event. (e_slug event, e_id event)) evs))
          (normalizeSlug P (sl_event_slug link)) = Some eid"
    and s: "mapGet (newMap (map (\<lambda>source. (s_source_url source, s_id source)) srcs))
          (sl_source_url link) = Some sid"
    and row: "es_event_id row = eid" "es_source_id row = sid"
    by (auto simp: buildLink_def split: option.splits if_splits)
  from mapGet_newMap_Some [OF e] mapGet_newMap_Some [OF s] row show ?thesis by auto
qed

lemma buildLink_resolves:
  assumes "\<forall>event \<in> set evs. e_id event \<noteq> []" "\<forall>source \<in> set srcs. s_id source \<noteq> []"
  shows "(buildLink P (newMap (map (\<lambda>event. (e_slug event, e_id event)) evs))
             (newMap (map (\<lambda>source. (s_source_url source, s_id source)) srcs)) link \<noteq> None)
         = (normalizeSlug P (sl_event_slug link) \<in> set (map e_slug evs)
            \<and> sl_source_url link \<in> set (map s_source_url srcs))"
proof -
  let ?em = "newMap (map (\<lambda>event. (e_slug event, e_id event)) evs)"
  let ?sm = "newMap (map (\<lambda>source. (s_source_url source, s_id source)) srcs)"
  have e1: "\<And>k v. mapGet ?em k = Some v \<Longrightarrow> v \<noteq> []"
    using mapGet_newMap_Some [of "map (\<lambda>event. (e_slug event, e_id event)) evs"] assms(1)
    by fastforce
  have s1: "\<And>k v. mapGet ?sm k = Some v \<Longrightarrow> v \<noteq> []"
    using mapGet_newMap_Some [of "map (\<lambda>source. (s_source_url source, s_id source)) srcs"] assms(2)
    by fastforce
  have e2: "\<And>k. (mapGet ?em k = None) = (k \<notin> set (map e_slug evs))"
    by (simp add: mapGet_newMap_None image_image)
  have s2: "\<And>k. (mapGet ?sm k = None) = (k \<notin> set (map s_source_url srcs))"
    by (simp add: mapGet_newMap_None image_image)
  show ?thesis
  proof (cases "mapGet ?em (normalizeSlug P (sl_event_slug link))")
    case None
    then have "normalizeSlug P (sl_event_slug link) \<notin> set (map e_slug evs)"
      using e2 by blast
    with None show ?thesis by (simp add: buildLink_def)
  next
    case (Some eid)
    note eid = this
    show ?thesis
    proof (cases "mapGet ?sm (sl_source_url link)")
      case None
      then have "sl_source_url link \<notin> set (map s_source_url srcs)"
        using s2 by blast
      with None eid show ?thesis by (simp add: buildLink_def)
    next
      case (Some sid)
      have "normalizeSlug P (sl_event_slug link) \<in> set (map e_slug evs)"
        using e2 eid by (metis option.distinct(1))
      moreover have "sl_source_url link \<in> set (map s_source_url srcs)"
        using s2 Some by (metis option.distinct(1))
      ultimately show ?thesis using eid Some e1 [OF eid] s1 [OF Some]
        by (simp add: buildLink_def)
    qed
  qed
qed

lemma length_map_filter: "length (List.map_filter f xs) = length (filter (\<lambda>x. f x \<noteq> None) xs)"
  by (induction xs) (auto simp: List.map_filter_simps split: option.splits)

text \<open>
  C4. In a built dataset every event-source link carries the identifier of an event
  and of a source of that same dataset. The builder returns a dataset for every seed:
  a seed link gives a row exactly when its normalised event slug and its source URL
  are found there, and any other link is left out.
\<close>

theorem buildDataset_links_closed:
  "(\<forall>row \<in> set (eventSources (buildDataset P now payload)).
       es_event_id row \<in> set (map e_id (events (buildDataset P now payload)))
     \<and> es_source_id row \<in> set (map s_id (sources (buildDataset P now payload))))
   \<and> length (eventSources (buildDataset P now payload))
     = length (filter
         (\<lambda>link. normalizeSlug P (sl_event_slug link)
                   \<in> set (map e_slug (events (buildDataset P now payload)))
                 \<and> sl_source_url link
                   \<in> set (map s_source_url (sources (buildDataset P now payload))))
         (asArray (p_event_sources payload)))"
proof -
  let ?srcs = "map (buildSource P now) (asArray (p_sources payload))"
  let ?evs = "map (buildEvent P now) (asArray (p_events payload))"
  let ?em = "newMap (map (\<lambda>event. (e_slug event, e_id event)) ?evs)"
  let ?sm = "newMap (map (\<lambda>source. (s_source_url source, s_id source)) ?srcs)"
  have d: "eventSources (buildDataset P now payload)
             = List.map_filter (buildLink P ?em ?sm) (asArray (p_event_sources payload))"
    "events (buildDataset P now payload) = ?evs"
    "sources (buildDataset P now payload) = ?srcs"
    by (simp_all add: buildDataset_def Let_def)
  have closed: "\<forall>row \<in> set (List.map_filter (buildLink P ?em ?sm) (asArray (p_event_sources payload))).
       es_event_id row \<in> set (map e_id ?evs) \<and> es_source_id row \<in> set (map s_id ?srcs)"
    using buildLink_Some [of P ?evs ?srcs] by (auto simp: List.map_filter_def)
  have ne: "\<forall>event \<in> set ?evs. e_id event \<noteq> []" "\<forall>source \<in> set ?srcs. s_id source \<noteq> []"
    by (auto simp: buildEvent_def buildSource_def Let_def stableUuid_nonempty)
  have count: "length (List.map_filter (buildLink P ?em ?sm) (asArray (p_event_sources payload)))
     = length (filter
         (\<lambda>link. normalizeSlug P (sl_event_slug link) \<in> set (map e_slug ?evs)
                 \<and> sl_source_url link \<in> set (map s_source_url ?srcs))
         (asArray (p_event_sources payload)))"
    unfolding length_map_filter buildLink_resolves [OF ne] ..
  from closed count show ?thesis unfolding d by blast
qed

theorem buildDataset_links_closed_witness:
  "map (\<lambda>row. (es_event_id row, es_source_id row))
       (eventSources (buildDataset exPlatform ''t0'' exSeed))
     = [(e_id (hd (events (buildDataset exPlatform ''t0'' exSeed))),
         s_id (hd (sources (buildDataset exPlatform ''t0'' exSeed))))]
   \<and> list_all (\<lambda>row.
         es_event_id row \<in> set (map e_id (events (buildDataset exPlatform ''t0'' exSeed)))
       \<and> es_source_id row \<in> set (map s_id (sources (buildDataset exPlatform ''t0'' exSeed))))
       (eventSources (buildDataset exPlatform ''t0'' exSeed))
   \<and> length (asArray (p_event_sources exSeed)) = 3"
proof -
  have "map (\<lambda>row. (es_event_id row, es_source_id row))
       (eventSources (buildDataset exPlatform ''t0'' exSeed))
     = [(e_id (hd (events (buildDataset exPlatform ''t0'' exSeed))),
         s_id (hd (sources (buildDataset exPlatform ''t0'' exSeed))))]"
    by code_simp
  moreover have "length (asArray (p_event_sources exSeed)) = 3"
    by (simp add: exSeed_def asArray_def)
  ultimately show ?thesis
    using buildDataset_links_closed [of exPlatform "''t0''" exSeed]
    unfolding list_all_iff by blast
qed

section \<open>Properties of the availability classifier\<close>























section \<open>Properties of the admin route for events\<close>

text \<open>
  With no connection string configured (and no pool created earlier), an authorised,
  valid request to create an event gets the service-unavailable envelope.
\<close>

lemma POST_admin_events_unconfigured:
  assumes "DATABASE_URL e = None \<or> DATABASE_URL e = Some []"
    and "(requireAdmin role :: AdminEventRecord ApiResponse option) = None"
  shows "POST_admin_events e False store role (Inr v)
           = ErrorEnvelope 503 ''SERVICE_UNAVAILABLE''
               ''Database is unavailable. Configure DATABASE_URL or run demo mode.''"
proof -
  have m: "isDatabaseUnavailableMessage ''DATABASE_URL is not set''"
    by code_simp
  have "createEvent e False store v
          = Inl (JError 0 ''DATABASE_URL is not set'' JUndefined JUndefined JUndefined)"
    using assms(1) by (auto simp: createEvent_def getDbPool_def createPool_def)
  then show ?thesis
    using assms(2) m
    by (simp add: POST_admin_events_def errorCode_def toErrorMessage_def serverError_def)
qed

text \<open>
  C8 at two failing inputs. The store is configured and unreachable: the query is
  rejected with the error \<open>read ECONNRESET\<close>, code \<open>ECONNRESET\<close> (the server dropped
  the connection), or with the aggregate of a refused connection, whose own message
  is empty. The classifier of the read paths recognises both as unavailability, yet
  the route answers 500 \<open>INTERNAL_ERROR\<close>, not 503 \<open>SERVICE_UNAVAILABLE\<close>.
\<close>

theorem POST_admin_events_reset_is_internal_error:
  "isDatabaseUnavailableError exResetError
   \<and> isDatabaseUnavailableError exRefusedAggregate
   \<and> hasDatabaseConfig exEnv
   \<and> POST_admin_events exEnv False (Rejects exResetError) (Some ''admin'') (Inr exInput)
       = ErrorEnvelope 500 ''INTERNAL_ERROR'' ''read ECONNRESET''
   \<and> POST_admin_events exEnv False (Rejects exRefusedAggregate) (Some ''admin'') (Inr exInput)
       = ErrorEnvelope 500 ''INTERNAL_ERROR'' []"
  by code_simp

section \<open>Properties of the event listings\<close>

lemma set_insortBy: "set (insortBy cmp x xs) = insert x (set xs)"
  by (induction xs) auto

lemma set_sortBy: "set (sortBy cmp xs) = set xs"
  by (induction xs) (simp_all add: sortBy_def set_insortBy)





lemma sorted_insortBy:
  assumes total: "\<And>a b. cmp a b \<le> 0 \<or> cmp b a \<le> 0"
    and trans: "\<And>a b c. cmp a b \<le> 0 \<Longrightarrow> cmp b c \<le> 0 \<Longrightarrow> cmp a c \<le> 0"
  shows "sorted_wrt (\<lambda>a b. cmp a b \<le> 0) xs \<Longrightarrow> sorted_wrt (\<lambda>a b. cmp a b \<le> 0) (insortBy cmp x xs)"
proof (induction xs)
  case Nil
  then show ?case by simp
next
  case (Cons y ys)
  show ?case
  proof (cases "cmp x y \<le> 0")
    case True
    then show ?thesis using Cons.prems trans by auto
  next
    case False
    then have "cmp y x \<le> 0" using total by blast
    then show ?thesis using False Cons by (auto simp: set_insortBy)
  qed
qed

lemma sorted_sortBy:
  assumes total: "\<And>a b. cmp a b \<le> 0 \<or> cmp b a \<le> 0"
    and trans: "\<And>a b c. cmp a b \<le> 0 \<Longrightarrow> cmp b c \<le> 0 \<Longrightarrow> cmp a c \<le> 0"
  shows "sorted_wrt (\<lambda>a b. cmp a b \<le> 0) (sortBy cmp xs)"
proof (induction xs)
  case Nil
  then show ?case by (simp add: sortBy_def)
next
  case (Cons x xs)
  have "sortBy cmp (x # xs) = insortBy cmp x (sortBy cmp xs)" by (simp add: sortBy_def)
  then show ?case using sorted_insortBy [of cmp, OF total trans] Cons by simp
qed

lemma localeCompare_eq: "localeCompare a b = defaultCompare a b"
  by (auto simp: localeCompare_def defaultCompare_def)

lemma defaultCompare_le: "(defaultCompare a b \<le> 0) = (a \<le> b)"
  by (auto simp: defaultCompare_def)

































section \<open>Properties of the source detail\<close>

lemma set_map_filter: "set (List.map_filter f xs) = {y. \<exists>x \<in> set xs. f x = Some y}"
  by (induction xs) (auto simp: List.map_filter_simps split: option.splits)

lemma find_unique:
  assumes "distinct (map f xs)"
  shows "(List.find (\<lambda>x. f x = k \<and> P x) xs = Some y) = (y \<in> set xs \<and> f y = k \<and> P y)"
  using assms
proof (induction xs)
  case Nil
  then show ?case by simp
next
  case (Cons x xs)
  have nin: "\<And>z. z \<in> set xs \<Longrightarrow> f z \<noteq> f x"
    using Cons.prems by (fastforce simp: image_iff)
  have ih: "(List.find (\<lambda>x. f x = k \<and> P x) xs = Some y) = (y \<in> set xs \<and> f y = k \<and> P y)"
    using Cons by simp
  show ?case
  proof (cases "f x = k \<and> P x")
    case True
    then show ?thesis using nin by auto
  next
    case False
    then show ?thesis using ih by auto
  qed
qed

lemma demo_link_row:
  assumes "distinct (map e_id (events d))"
  shows "((case List.find (\<lambda>entry. e_id entry = k \<and> e_status entry = Published) (events d) of
            None \<Rightarrow> None
          | Some event \<Rightarrow> Some (linkedEvent event link)) = Some y)
       = (\<exists>e \<in> set (events d). e_id e = k \<and> e_status e = Published \<and> y = linkedEvent e link)"
proof -
  have "((case List.find (\<lambda>entry. e_id entry = k \<and> e_status entry = Published) (events d) of
            None \<Rightarrow> None
          | Some event \<Rightarrow> Some (linkedEvent event link)) = Some y)
      = (\<exists>e. List.find (\<lambda>entry. e_id entry = k \<and> e_status entry = Published) (events d) = Some e
             \<and> y = linkedEvent e link)"
    by (cases "List.find (\<lambda>entry. e_id entry = k \<and> e_status entry = Published) (events d)") auto
  also have "\<dots> = (\<exists>e. e \<in> set (events d) \<and> e_id e = k \<and> e_status e = Published
                        \<and> y = linkedEvent e link)"
    unfolding find_unique [OF assms, of k "\<lambda>e. e_status e = Published"] by blast
  finally show ?thesis by blast
qed

lemma linkedRows_set:
  "set (linkedEventRows d sourceId)
     = {y. \<exists>l \<in> set (eventSources d). es_source_id l = sourceId
            \<and> (\<exists>e \<in> set (events d). e_id e = es_event_id l \<and> e_status e = Published
                  \<and> y = linkedEvent e l)}"
  unfolding linkedEventRows_def by (simp add: set_eq_iff) blast

lemma linkedRows_published:
  assumes "le \<in> set (linkedEventRows d sourceId)"
  shows "refersToPublished d (le_id le)"
proof -
  from assms obtain l e where "e \<in> set (events d)" "e_status e = Published" "le = linkedEvent e l"
    unfolding linkedRows_set by blast
  then show ?thesis
    unfolding refersToPublished_def list_ex_iff by (simp add: linkedEvent_def) blast
qed

lemma byDateDesc_demo:
  "byDateDesc (sortBy (\<lambda>a b. localeCompare (le_event_date b) (le_event_date a)) xs)"
proof -
  have "sorted_wrt (\<lambda>a b. localeCompare (le_event_date b) (le_event_date a) \<le> 0)
          (sortBy (\<lambda>a b. localeCompare (le_event_date b) (le_event_date a)) xs)"
  proof (rule sorted_sortBy)
    fix a b :: SourceLinkedEvent
    show "localeCompare (le_event_date b) (le_event_date a) \<le> 0
          \<or> localeCompare (le_event_date a) (le_event_date b) \<le> 0"
      unfolding localeCompare_eq defaultCompare_le by (rule linear)
  next
    fix a b c :: SourceLinkedEvent
    assume "localeCompare (le_event_date b) (le_event_date a) \<le> 0"
      and "localeCompare (le_event_date c) (le_event_date b) \<le> 0"
    then show "localeCompare (le_event_date c) (le_event_date a) \<le> 0"
      unfolding localeCompare_eq defaultCompare_le by (rule order_trans [rotated])
  qed
  then show ?thesis
    by (simp add: byDateDesc_def localeCompare_eq defaultCompare_le)
qed

lemma linkedEventOrder_le:
  "(linkedEventOrder a b \<le> 0)
     = (le_event_date b < le_event_date a
        \<or> (le_event_date a = le_event_date b \<and> le_relevance_rank a \<le> le_relevance_rank b))"
  unfolding linkedEventOrder_def defaultCompare_def
  by (cases "le_event_date a = le_event_date b") (simp_all add: not_less_iff_gr_or_eq)

lemma byDateDesc_live: "byDateDesc (sortBy linkedEventOrder xs)"
proof -
  have "sorted_wrt (\<lambda>a b. linkedEventOrder a b \<le> 0) (sortBy linkedEventOrder xs)"
  proof (rule sorted_sortBy)
    fix a b :: SourceLinkedEvent
    show "linkedEventOrder a b \<le> 0 \<or> linkedEventOrder b a \<le> 0"
      unfolding linkedEventOrder_le
      using linorder_less_linear [of "le_event_date a" "le_event_date b"]
            linear [of "le_relevance_rank a" "le_relevance_rank b"]
      by auto
  next
    fix a b c :: SourceLinkedEvent
    assume "linkedEventOrder a b \<le> 0" and "linkedEventOrder b c \<le> 0"
    then show "linkedEventOrder a c \<le> 0"
      unfolding linkedEventOrder_le
      using less_trans [of "le_event_date c" "le_event_date b" "le_event_date a"]
            order_trans [of "le_relevance_rank a" "le_relevance_rank b" "le_relevance_rank c"]
      by metis
  qed
  moreover have "\<And>a b :: SourceLinkedEvent. linkedEventOrder a b \<le> 0
                   \<Longrightarrow> le_event_date b \<le> le_event_date a"
    unfolding linkedEventOrder_le using less_imp_le by (metis order_refl)
  ultimately show ?thesis
    unfolding byDateDesc_def by (rule sorted_wrt_mono_rel [rotated]) blast
qed

text \<open>
  C5, as stated, fails on both paths. A source is linked to the crash of 1929 with
  relevance rank 9 and to a later event with rank 1: both paths list the later event
  first, so the ranks come out as 1, 9 and not in descending order.
\<close>

theorem getSourceById_not_by_rank:
  "map_option (\<lambda>r. map le_relevance_rank (sd_linked_events r))
       (getSourceByIdFromDemo (buildDataset exPlatform ''t0'' exRanksSeed)
          (stableUuid exPlatform ''source:https://fed.example/a'')) = Some [1, 9]
   \<and> map_option (\<lambda>r. map le_relevance_rank (sd_linked_events r))
       (getSourceByIdQuery (buildDataset exPlatform ''t0'' exRanksSeed)
          (stableUuid exPlatform ''source:https://fed.example/a'')) = Some [1, 9]
   \<and> \<not> byRankDesc (linkedEventsOf
         (getSourceByIdFromDemo (buildDataset exPlatform ''t0'' exRanksSeed)
            (stableUuid exPlatform ''source:https://fed.example/a'')))
   \<and> \<not> byRankDesc (linkedEventsOf
         (getSourceByIdQuery (buildDataset exPlatform ''t0'' exRanksSeed)
            (stableUuid exPlatform ''source:https://fed.example/a'')))"
  by code_simp

text \<open>
  C5, amended. For every source id present in the data (event ids being unique), the
  get-source-by-id operation returns that source with its linked published events
  sorted by event date descending, on both the live path and the in-memory path.
\<close>

theorem getSourceById_by_date:
  assumes "sourceId \<in> set (map s_id (sources d))" and "distinct (map e_id (events d))"
  shows "sourceDetailFor d sourceId (getSourceByIdFromDemo d sourceId)
       \<and> sourceDetailFor d sourceId (getSourceByIdQuery d sourceId)"
proof -
  have ex: "\<exists>x \<in> set (sources d). s_id x = sourceId" using assms(1) by auto
  have "List.find (\<lambda>entry. s_id entry = sourceId) (sources d) \<noteq> None"
    using ex unfolding find_None_iff by blast
  then obtain source where f: "List.find (\<lambda>entry. s_id entry = sourceId) (sources d) = Some source"
    by blast
  then have src: "s_id source = sourceId" "source \<in> set (sources d)"
    by (auto simp: find_Some_iff)
  let ?links = "sortBy (\<lambda>a b. es_relevance_rank b - es_relevance_rank a)
                  (filter (\<lambda>entry. es_source_id entry = sourceId) (eventSources d))"
  let ?mapped = "List.map_filter
                   (\<lambda>link. case List.find (\<lambda>entry. e_id entry = es_event_id link
                                                   \<and> e_status entry = Published) (events d) of
                              None \<Rightarrow> None
                            | Some event \<Rightarrow> Some (linkedEvent event link)) ?links"
  have m: "set ?mapped = set (linkedEventRows d sourceId)"
    unfolding set_map_filter linkedRows_set set_sortBy demo_link_row [OF assms(2)]
    by (simp add: set_eq_iff) blast
  have pub: "\<And>le. le \<in> set (linkedEventRows d sourceId) \<Longrightarrow> refersToPublished d (le_id le)"
    by (rule linkedRows_published)
  have demo: "getSourceByIdFromDemo d sourceId
     = Some \<lparr> sd_source = source,
              sd_linked_events = sortBy (\<lambda>a b. localeCompare (le_event_date b) (le_event_date a)) ?mapped \<rparr>"
    by (simp add: getSourceByIdFromDemo_def f Let_def)
  have d1: "sourceDetailFor d sourceId (getSourceByIdFromDemo d sourceId)"
    unfolding demo sourceDetailFor_def
    using src m pub
    by (simp add: set_sortBy byDateDesc_demo list_all_iff list_ex_iff)
  have "filter (\<lambda>row. s_id row = sourceId) (sources d) \<noteq> []"
    using ex unfolding filter_empty_conv by blast
  then obtain row others where fl: "filter (\<lambda>row. s_id row = sourceId) (sources d) = row # others"
    by (cases "filter (\<lambda>row. s_id row = sourceId) (sources d)") simp_all
  then have "row \<in> set (filter (\<lambda>row. s_id row = sourceId) (sources d))" by simp
  then have row: "s_id row = sourceId" "row \<in> set (sources d)" by simp_all
  have live: "getSourceByIdQuery d sourceId
     = Some \<lparr> sd_source = row,
              sd_linked_events = sortBy linkedEventOrder (linkedEventRows d sourceId) \<rparr>"
    by (simp add: getSourceByIdQuery_def fl)
  have d2: "sourceDetailFor d sourceId (getSourceByIdQuery d sourceId)"
    unfolding live sourceDetailFor_def
    using row pub
    by (simp add: set_sortBy byDateDesc_live list_all_iff list_ex_iff)
  from d1 d2 show ?thesis by blast
qed

theorem getSourceById_by_date_witness:
  "sourceDetailFor (buildDataset exPlatform ''t0'' exRanksSeed)
       (stableUuid exPlatform ''source:https://fed.example/a'')
       (getSourceByIdFromDemo (buildDataset exPlatform ''t0'' exRanksSeed)
          (stableUuid exPlatform ''source:https://fed.example/a''))
   \<and> sourceDetailFor (buildDataset exPlatform ''t0'' exRanksSeed)
       (stableUuid exPlatform ''source:https://fed.example/a'')
       (getSourceByIdQuery (buildDataset exPlatform ''t0'' exRanksSeed)
          (stableUuid exPlatform ''source:https://fed.example/a''))
   \<and> map_option (\<lambda>r. map le_slug (sd_linked_events r))
       (getSourceByIdFromDemo (buildDataset exPlatform ''t0'' exRanksSeed)
          (stableUuid exPlatform ''source:https://fed.example/a''))
     = Some [''lehman'', ''crash-of-1929'']"
proof -
  let ?D = "buildDataset exPlatform ''t0'' exRanksSeed"
  let ?sid = "stableUuid exPlatform ''source:https://fed.example/a''"
  have a: "?sid \<in> set (map s_id (sources ?D))" by code_simp
  have b: "distinct (map e_id (events ?D))" by code_simp
  have c: "map_option (\<lambda>r. map le_slug (sd_linked_events r)) (getSourceByIdFromDemo ?D ?sid)
             = Some [''lehman'', ''crash-of-1929'']"
    by code_simp
  from getSourceById_by_date [OF a b] c show ?thesis by blast
qed

section \<open>Visibility of unpublished events\<close>

lemma pushMembers_ids:
  assumes "te \<in> set (pushMembers tline xs)"
  shows "\<exists>e \<in> set xs. te_event_id te = e_id e"
proof -
  from assms obtain p where p: "p \<in> set (List.enumerate 0 xs)"
    and te: "te = (\<lambda>(index, event).
            \<lparr> te_timeline_id = tl_id tline, te_event_id = e_id event,
              te_sequence_no = int index + 1 \<rparr>) p"
    unfolding pushMembers_def by auto
  obtain i e where ie: "p = (i, e)" by (cases p)
  from p ie have "e \<in> set xs" using nth_mem by (auto simp: in_set_enumerate_eq)
  moreover from te ie have "te_event_id te = e_id e" by simp
  ultimately show ?thesis by blast
qed

lemma timelineEvents_published:
  assumes "te \<in> set (snd (buildTimelines P now evs))"
  shows "\<exists>e \<in> set evs. e_id e = te_event_id te \<and> e_status e = Published"
proof -
  let ?pub = "sortBy sortByEventDateAsc (filter (\<lambda>event. e_status event = Published) evs)"
  have sub: "\<And>tline Q. te \<in> set (pushMembers tline (filter Q ?pub))
               \<Longrightarrow> \<exists>e \<in> set ?pub. te_event_id te = e_id e"
    by (drule pushMembers_ids) auto
  from assms have "\<exists>e \<in> set ?pub. te_event_id te = e_id e"
    unfolding buildTimelines_def Let_def snd_conv set_append Un_iff
    by (elim disjE) (erule pushMembers_ids, (erule sub)+)
  then obtain e where "e \<in> set ?pub" "te_event_id te = e_id e" by blast
  then have "e \<in> set evs" "e_status e = Published" "e_id e = te_event_id te"
    by (simp_all add: set_sortBy)
  then show ?thesis by blast
qed

lemma set_jsSlice: "set (jsSlice xs a b) \<subseteq> set xs"
  unfolding jsSlice_def Let_def
  by (meson in_set_dropD in_set_takeD subsetI)

lemma set_applyEventSort: "set (applyEventSort xs s) = set xs"
  by (simp add: applyEventSort_def set_sortBy)

lemma whenGiven_as_filter:
  "whenGiven v keep xs = filter (\<lambda>x. pushedWhen v (\<lambda>s. keep s x)) xs"
  by (simp add: whenGiven_def pushedWhen_def split: option.splits)

lemma importanceMin_as_filter:
  "(case m of Some importanceMin \<Rightarrow> filter (\<lambda>item. importanceMin \<le> i_importance_score item) ys
            | None \<Rightarrow> ys)
     = filter (\<lambda>item. case m of Some importanceMin \<Rightarrow> importanceMin \<le> i_importance_score item
                                | None \<Rightarrow> True) ys"
  by (simp split: option.splits)

lemma set_demoFilters: "set (demoFilters f xs) \<subseteq> set xs"
  unfolding demoFilters_def Let_def whenGiven_as_filter importanceMin_as_filter
  by (simp add: subset_iff)

lemma items_published:
  assumes "item \<in> set (items (listPublishedEventsFromDemo d f))"
  shows "showsPublished d (itemColumns item)"
proof -
  let ?T = "foldl (tagsByEventIdStep d) [] (eventTags d)"
  let ?S = "foldl sourceCountStep [] (eventSources d)"
  let ?its = "map (demoItem ?T ?S) (filter (\<lambda>event. e_status event = Published) (events d))"
  have "set (items (listPublishedEventsFromDemo d f))
          \<subseteq> set (applyEventSort (demoFilters f ?its) (f_sort f))"
    unfolding listPublishedEventsFromDemo_def Let_def by (simp add: set_jsSlice)
  also have "\<dots> = set (demoFilters f ?its)" by (rule set_applyEventSort)
  also have "\<dots> \<subseteq> set ?its" by (rule set_demoFilters)
  finally have "item \<in> set ?its" using assms by blast
  then obtain e where e: "e \<in> set (events d)" "e_status e = Published"
    and it: "item = demoItem ?T ?S e"
    unfolding set_map set_filter by blast
  from it have "eventColumns e = itemColumns item"
    by (simp add: demoItem_def eventColumns_def itemColumns_def)
  with e show ?thesis
    unfolding showsPublished_def list_ex_iff by blast
qed

lemma monthDay_published:
  assumes "item \<in> set (listPublishedEventsByMonthDayFromDemo d monthDay)"
  shows "showsPublished d (itemColumns item)"
  using assms items_published unfolding listPublishedEventsByMonthDayFromDemo_def Let_def
  by auto

lemma demo_linked_published:
  assumes "getSourceByIdFromDemo d sourceId = Some r" "le \<in> set (sd_linked_events r)"
  shows "showsPublished d (linkedEventColumns le)"
proof -
  let ?links = "sortBy (\<lambda>a b. es_relevance_rank b - es_relevance_rank a)
                  (filter (\<lambda>entry. es_source_id entry = sourceId) (eventSources d))"
  let ?f = "\<lambda>link. case List.find (\<lambda>entry. e_id entry = es_event_id link
                                                   \<and> e_status entry = Published) (events d) of
                              None \<Rightarrow> None
                            | Some event \<Rightarrow> Some (linkedEvent event link)"
  obtain source where "List.find (\<lambda>entry. s_id entry = sourceId) (sources d) = Some source"
    using assms(1) by (cases "List.find (\<lambda>entry. s_id entry = sourceId) (sources d)")
      (simp_all add: getSourceByIdFromDemo_def)
  with assms(1) have "r = \<lparr> sd_source = source,
       sd_linked_events = sortBy (\<lambda>a b. localeCompare (le_event_date b) (le_event_date a))
                            (List.map_filter ?f ?links) \<rparr>"
    by (simp add: getSourceByIdFromDemo_def Let_def)
  then have "sd_linked_events r
      = sortBy (\<lambda>a b. localeCompare (le_event_date b) (le_event_date a)) (List.map_filter ?f ?links)"
    by simp
  with assms(2) have "le \<in> set (List.map_filter ?f ?links)" by (simp add: set_sortBy)
  then obtain link where fl: "?f link = Some le"
    unfolding set_map_filter by blast
  then obtain e where
    f: "List.find (\<lambda>entry. e_id entry = es_event_id link \<and> e_status entry = Published) (events d) = Some e"
    and le: "le = linkedEvent e link"
    by (cases "List.find (\<lambda>entry. e_id entry = es_event_id link \<and> e_status entry = Published) (events d)")
       simp_all
  from f have "e \<in> set (events d)" "e_status e = Published"
    unfolding find_Some_iff by (metis nth_mem, blast)
  moreover from le have "eventColumns e = linkedEventColumns le"
    by (simp add: linkedEvent_def eventColumns_def linkedEventColumns_def)
  ultimately show ?thesis unfolding showsPublished_def list_ex_iff by blast
qed

lemma mapGet_mapSet_same: "mapGet (mapSet m k v) k = Some v"
  by (simp add: mapGet_def mapSet_lookup)

lemma buildTagsStep_rows:
  "map et_event_id (snd (buildTagsStep P st ev)) = map et_event_id (snd st) @ [e_id ev]"
proof (cases "mapGet (fst st) (normalizeSlug P (e_category ev))")
  case None
  then show ?thesis by (simp add: buildTagsStep_def Let_def mapGet_mapSet_same)
next
  case (Some t)
  then show ?thesis by (simp add: buildTagsStep_def Let_def)
qed

lemma buildTags_rows_gen:
  "map et_event_id (snd (foldl (buildTagsStep P) st evs)) = map et_event_id (snd st) @ map e_id evs"
  by (induction evs arbitrary: st) (simp_all add: buildTagsStep_rows)

lemma buildTags_rows: "map et_event_id (snd (buildTags P evs)) = map e_id evs"
  by (simp add: buildTags_def Let_def buildTags_rows_gen)

lemma published_lookup:
  "(mapGet (newMap (map (\<lambda>event. (e_id event, event))
                     (filter (\<lambda>event. e_status event = Published) (events d)))) k \<noteq> None)
     = refersToPublished d k"
  unfolding mapGet_newMap_None refersToPublished_def list_ex_iff
  by (auto simp: image_iff)

lemma timelineMembers_published:
  assumes "event \<in> set (timelineMembers d timeline)"
  shows "event \<in> set (events d) \<and> e_status event = Published"
proof -
  let ?m = "newMap (map (\<lambda>event. (e_id event, event))
                     (filter (\<lambda>event. e_status event = Published) (events d)))"
  from assms have "event \<in> set (List.map_filter (\<lambda>entry. mapGet ?m (te_event_id entry))
                      (filter (\<lambda>entry. te_timeline_id entry = tl_id timeline) (timelineEvents d)))"
    by (simp add: timelineMembers_def Let_def)
  then have "\<exists>entry :: DemoTimelineEventRecord. mapGet ?m (te_event_id entry) = Some event"
    by (auto simp: set_map_filter)
  then obtain entry :: DemoTimelineEventRecord
    where "mapGet ?m (te_event_id entry) = Some event" ..
  then have "(te_event_id entry, event)
      \<in> set (map (\<lambda>event. (e_id event, event))
                (filter (\<lambda>event. e_status event = Published) (events d)))"
    by (rule mapGet_newMap_Some)
  then show ?thesis by auto
qed

lemma timelineMembers_count:
  "length (timelineMembers d timeline) = length (publishedMemberships d (tl_id timeline))"
proof -
  have "filter (\<lambda>entry. refersToPublished d (te_event_id entry))
          (filter (\<lambda>entry. te_timeline_id entry = tl_id timeline) (timelineEvents d))
        = publishedMemberships d (tl_id timeline)"
    by (simp add: publishedMemberships_def conj_commute)
  then show ?thesis
    unfolding timelineMembers_def Let_def length_map_filter published_lookup by simp
qed

lemma shownDates_members:
  assumes "date \<in> set (shownDates (timelineListItem d timeline))"
  shows "\<exists>event \<in> set (timelineMembers d timeline). e_event_date event = date"
proof -
  let ?dates = "sortBy defaultCompare (map e_event_date (timelineMembers d timeline))"
  have "set (shownDates (timelineListItem d timeline)) \<subseteq> set ?dates"
  proof (cases ?dates)
    case Nil
    then show ?thesis by (simp add: shownDates_def timelineListItem_def Let_def)
  next
    case (Cons first others)
    then have "last ?dates \<in> set ?dates" using last_in_set [of ?dates] by simp
    then show ?thesis using Cons by (simp add: shownDates_def timelineListItem_def Let_def)
  qed
  with assms have "date \<in> set (map e_event_date (timelineMembers d timeline))"
    by (auto simp: set_sortBy)
  then show ?thesis by auto
qed

lemma timelineList_items:
  assumes "item \<in> set (listTimelinesPublicFromDemo collate d)"
  shows "tli_event_count item = int (length (publishedMemberships d (tli_id item)))
       \<and> list_all (\<lambda>date. list_ex (\<lambda>e. e_event_date e = date \<and> e_status e = Published) (events d))
           (shownDates item)"
proof -
  from assms obtain timeline where item: "item = timelineListItem d timeline"
    unfolding listTimelinesPublicFromDemo_def set_sortBy by auto
  have id: "tli_id item = tl_id timeline"
    and n: "tli_event_count item = int (length (timelineMembers d timeline))"
    unfolding item by (simp_all add: timelineListItem_def Let_def)
  have 1: "tli_event_count item = int (length (publishedMemberships d (tli_id item)))"
    unfolding n id by (simp add: timelineMembers_count)
  have 2: "list_all (\<lambda>date. list_ex (\<lambda>e. e_event_date e = date \<and> e_status e = Published) (events d))
             (shownDates item)"
    unfolding list_all_iff list_ex_iff item
  proof
    fix date
    assume "date \<in> set (shownDates (timelineListItem d timeline))"
    then obtain event where "event \<in> set (timelineMembers d timeline)" "e_event_date event = date"
      using shownDates_members by blast
    then show "\<exists>e \<in> set (events d). e_event_date e = date \<and> e_status e = Published"
      using timelineMembers_published by blast
  qed
  from 1 2 show ?thesis by blast
qed

lemma timelineDetail_published:
  assumes "item \<in> set (timelineEventsOf (getTimelineBySlugFromDemo d slug))"
  shows "showsPublished d (timelineEventColumns item)"
proof (cases "List.find (\<lambda>entry. tl_slug entry = slug) (timelines d)")
  case None
  then show ?thesis using assms
    by (simp add: getTimelineBySlugFromDemo_def timelineEventsOf_def)
next
  case (Some timeline)
  let ?f = "\<lambda>entry. case List.find (\<lambda>candidate. e_id candidate = te_event_id entry
                                                   \<and> e_status candidate = Published) (events d) of
                        None \<Rightarrow> None
                      | Some event \<Rightarrow> Some (timelineEventItem event entry)"
  let ?entries = "sortBy (\<lambda>a b. te_sequence_no a - te_sequence_no b)
                    (filter (\<lambda>entry. te_timeline_id entry = tl_id timeline) (timelineEvents d))"
  have "timelineEventsOf (getTimelineBySlugFromDemo d slug) = List.map_filter ?f ?entries"
    using Some by (simp add: getTimelineBySlugFromDemo_def timelineEventsOf_def Let_def)
  with assms have "item \<in> set (List.map_filter ?f ?entries)" by simp
  then have "\<exists>entry. ?f entry = Some item"
    by (auto simp: set_map_filter)
  then obtain entry where fe: "?f entry = Some item" ..
  then obtain e where
    f: "List.find (\<lambda>candidate. e_id candidate = te_event_id entry \<and> e_status candidate = Published)
          (events d) = Some e"
    and it: "item = timelineEventItem e entry"
    by (cases "List.find (\<lambda>candidate. e_id candidate = te_event_id entry
                                       \<and> e_status candidate = Published) (events d)")
       simp_all
  from f have "e \<in> set (events d)" "e_status e = Published"
    unfolding find_Some_iff by (metis nth_mem, blast)
  moreover from it have "eventColumns e = timelineEventColumns item"
    by (simp add: timelineEventItem_def eventColumns_def timelineEventColumns_def)
  ultimately show ?thesis unfolding showsPublished_def list_ex_iff by blast
qed

lemma eventDetail_published:
  assumes "detail \<in> set (detailOf (getPublishedEventBySlugFromDemo d slug))"
  shows "showsPublished d (detailColumns detail) \<and> d_slug detail = slug"
proof (cases "List.find (\<lambda>entry. e_slug entry = slug \<and> e_status entry = Published) (events d)")
  case None
  then show ?thesis using assms
    by (simp add: getPublishedEventBySlugFromDemo_def detailOf_def)
next
  case (Some event)
  then have "event \<in> set (events d)" "e_slug event = slug" "e_status event = Published"
    unfolding find_Some_iff by (metis nth_mem, blast, blast)
  moreover have "eventColumns event = detailColumns detail" "d_slug detail = e_slug event"
    using assms Some
    by (simp_all add: getPublishedEventBySlugFromDemo_def detailOf_def Let_def
          eventColumns_def detailColumns_def)
  ultimately show ?thesis unfolding showsPublished_def list_ex_iff by auto
qed

text \<open>
  C2, as stated, fails for the tag cross-reference: \<open>buildTags\<close> receives every event
  of the seed, so a draft event has its row in \<open>eventTags\<close>. The listings collect the
  tags of an event by its id: where a draft and a published event have slugs that
  differ in case only, and so the same id, the published event is listed with the tag
  of the draft's category.
\<close>

theorem eventTags_reference_draft_event:
  "list_ex (\<lambda>et. \<not> refersToPublished (buildDataset exPlatform ''t0'' exSeed) (et_event_id et))
       (eventTags (buildDataset exPlatform ''t0'' exSeed))
   \<and> map e_status (events (buildDataset exPlatform ''t0'' exSeed)) = [Published, Draft]
   \<and> map et_event_id (eventTags (buildDataset exPlatform ''t0'' exSeed))
     = map e_id (events (buildDataset exPlatform ''t0'' exSeed))
   \<and> map (\<lambda>e. (e_id e, e_slug e, e_category e, e_status e))
       (events (buildDataset exPlatform ''t0'' exTwinsSeed))
     = [(stableUuid exPlatform ''event:crash-of-1929'', ''crash-of-1929'', ''Markets'', Published),
        (stableUuid exPlatform ''event:crash-of-1929'', ''crash-of-1929'', ''Secret'', Draft)]
   \<and> map (\<lambda>item. (i_slug item, i_category item, i_tags item))
       (items (listPublishedEventsFromDemo (buildDataset exPlatform ''t0'' exTwinsSeed) exNoFilters))
     = [(''crash-of-1929'', ''Markets'', [''markets'', ''secret''])]"
  by code_simp

text \<open>
  C2, amended. In every built demo snapshot, each derived timeline membership carries
  the id of a published event, and each event shown by a reader of the snapshot (the
  list of events, the list for a month-day, the event detail for a slug, the linked
  events of a source, the events of a timeline detail) is shown with the id, slug,
  title, date, region, category and summary of a published event of the snapshot; the
  members that the list of timelines counts are published events of the snapshot, its
  count is the number of the timeline's memberships that refer to a published event,
  and the dates it shows are dates of published events. The tag cross-reference
  \<open>eventTags\<close> holds one row for every event of the seed, whatever its status.
\<close>

theorem derived_structures_visibility:
  "list_all (\<lambda>te. refersToPublished (buildDataset P now payload) (te_event_id te))
       (timelineEvents (buildDataset P now payload))
   \<and> list_all (\<lambda>item. showsPublished (buildDataset P now payload) (itemColumns item))
       (items (listPublishedEventsFromDemo (buildDataset P now payload) filters))
   \<and> list_all (\<lambda>item. showsPublished (buildDataset P now payload) (itemColumns item))
       (listPublishedEventsByMonthDayFromDemo (buildDataset P now payload) monthDay)
   \<and> list_all (\<lambda>detail. showsPublished (buildDataset P now payload) (detailColumns detail)
                        \<and> d_slug detail = eventSlug)
       (detailOf (getPublishedEventBySlugFromDemo (buildDataset P now payload) eventSlug))
   \<and> list_all (\<lambda>le. showsPublished (buildDataset P now payload) (linkedEventColumns le))
       (linkedEventsOf (getSourceByIdFromDemo (buildDataset P now payload) sourceId))
   \<and> list_all (\<lambda>event. event \<in> set (events (buildDataset P now payload))
                       \<and> e_status event = Published)
       (timelineMembers (buildDataset P now payload) timeline)
   \<and> list_all (\<lambda>item. tli_event_count item
                        = int (length (publishedMemberships (buildDataset P now payload) (tli_id item)))
                      \<and> list_all (\<lambda>date. list_ex (\<lambda>e. e_event_date e = date \<and> e_status e = Published)
                                             (events (buildDataset P now payload)))
                          (shownDates item))
       (listTimelinesPublicFromDemo collate (buildDataset P now payload))
   \<and> list_all (\<lambda>item. showsPublished (buildDataset P now payload) (timelineEventColumns item))
       (timelineEventsOf (getTimelineBySlugFromDemo (buildDataset P now payload) timelineSlug))
   \<and> map et_event_id (eventTags (buildDataset P now payload))
     = map e_id (events (buildDataset P now payload))"
proof -
  let ?D = "buildDataset P now payload"
  have te: "timelineEvents ?D = snd (buildTimelines P now (events ?D))"
    and et: "eventTags ?D = snd (buildTags P (events ?D))"
    by (simp_all add: buildDataset_def Let_def)
  have 1: "list_all (\<lambda>te. refersToPublished ?D (te_event_id te)) (timelineEvents ?D)"
    unfolding te list_all_iff refersToPublished_def list_ex_iff
    using timelineEvents_published by blast
  have 2: "list_all (\<lambda>item. showsPublished ?D (itemColumns item))
             (items (listPublishedEventsFromDemo ?D filters))"
    unfolding list_all_iff using items_published by blast
  have 3: "list_all (\<lambda>item. showsPublished ?D (itemColumns item))
             (listPublishedEventsByMonthDayFromDemo ?D monthDay)"
    unfolding list_all_iff using monthDay_published by blast
  have 4: "list_all (\<lambda>detail. showsPublished ?D (detailColumns detail) \<and> d_slug detail = eventSlug)
             (detailOf (getPublishedEventBySlugFromDemo ?D eventSlug))"
    unfolding list_all_iff using eventDetail_published by blast
  have 5: "list_all (\<lambda>le. showsPublished ?D (linkedEventColumns le))
             (linkedEventsOf (getSourceByIdFromDemo ?D sourceId))"
  proof (cases "getSourceByIdFromDemo ?D sourceId")
    case None
    then show ?thesis by (simp add: linkedEventsOf_def)
  next
    case (Some r)
    then show ?thesis
      unfolding list_all_iff using demo_linked_published [OF Some]
      by (simp add: linkedEventsOf_def)
  qed
  have 6: "list_all (\<lambda>event. event \<in> set (events ?D) \<and> e_status event = Published)
             (timelineMembers ?D timeline)"
    unfolding list_all_iff using timelineMembers_published by blast
  have 7: "list_all (\<lambda>item. tli_event_count item
                        = int (length (publishedMemberships ?D (tli_id item)))
                      \<and> list_all (\<lambda>date. list_ex (\<lambda>e. e_event_date e = date \<and> e_status e = Published)
                                             (events ?D))
                          (shownDates item))
             (listTimelinesPublicFromDemo collate ?D)"
    unfolding list_all_iff [of _ "listTimelinesPublicFromDemo collate ?D"]
    using timelineList_items by blast
  have 8: "list_all (\<lambda>item. showsPublished ?D (timelineEventColumns item))
             (timelineEventsOf (getTimelineBySlugFromDemo ?D timelineSlug))"
    unfolding list_all_iff using timelineDetail_published by blast
  have 9: "map et_event_id (eventTags ?D) = map e_id (events ?D)"
    unfolding et by (rule buildTags_rows)
  from 1 2 3 4 5 6 7 8 9 show ?thesis by blast
qed

theorem derived_structures_visibility_witness:
  "list_all (\<lambda>te. refersToPublished (buildDataset exPlatform ''t0'' exSeed) (te_event_id te))
       (timelineEvents (buildDataset exPlatform ''t0'' exSeed))
   \<and> length (timelineEvents (buildDataset exPlatform ''t0'' exSeed)) = 1
   \<and> map i_slug (items (listPublishedEventsFromDemo (buildDataset exPlatform ''t0'' exSeed)
         exNoFilters)) = [''crash-of-1929'']
   \<and> map d_slug (detailOf (getPublishedEventBySlugFromDemo (buildDataset exPlatform ''t0'' exSeed)
         ''crash-of-1929'')) = [''crash-of-1929'']
   \<and> detailOf (getPublishedEventBySlugFromDemo (buildDataset exPlatform ''t0'' exSeed)
         ''draft-note'') = []
   \<and> list_all (\<lambda>item. showsPublished (buildDataset exPlatform ''t0'' exSeed)
                        (timelineEventColumns item))
       (timelineEventsOf (getTimelineBySlugFromDemo (buildDataset exPlatform ''t0'' exSeed)
          ''global-financial-turning-points''))
   \<and> map tei_slug
       (timelineEventsOf (getTimelineBySlugFromDemo (buildDataset exPlatform ''t0'' exSeed)
          ''global-financial-turning-points'')) = [''crash-of-1929'']
   \<and> map (\<lambda>item. (tli_slug item, tli_event_count item))
       (filter (\<lambda>item. 0 < tli_event_count item)
          (listTimelinesPublicFromDemo localeCompare (buildDataset exPlatform ''t0'' exSeed)))
     = [(''global-financial-turning-points'', 1)]
   \<and> list_all (\<lambda>item. showsPublished (buildDataset exPlatform ''t0'' exTwinsSeed) (itemColumns item))
       (items (listPublishedEventsFromDemo (buildDataset exPlatform ''t0'' exTwinsSeed) exNoFilters))
   \<and> map i_category
       (items (listPublishedEventsFromDemo (buildDataset exPlatform ''t0'' exTwinsSeed) exNoFilters))
     = [''Markets'']"
proof -
  let ?D = "buildDataset exPlatform ''t0'' exSeed"
  have t: "map i_category
       (items (listPublishedEventsFromDemo (buildDataset exPlatform ''t0'' exTwinsSeed) exNoFilters))
     = [''Markets'']"
    by code_simp
  have a: "length (timelineEvents ?D) = 1
   \<and> map i_slug (items (listPublishedEventsFromDemo ?D exNoFilters)) = [''crash-of-1929'']"
    by code_simp
  have b: "map d_slug (detailOf (getPublishedEventBySlugFromDemo ?D ''crash-of-1929''))
             = [''crash-of-1929'']
   \<and> detailOf (getPublishedEventBySlugFromDemo ?D ''draft-note'') = []"
    by code_simp
  have c: "map tei_slug
       (timelineEventsOf (getTimelineBySlugFromDemo ?D ''global-financial-turning-points''))
     = [''crash-of-1929'']"
    by code_simp
  have d: "map (\<lambda>item. (tli_slug item, tli_event_count item))
       (filter (\<lambda>item. 0 < tli_event_count item) (listTimelinesPublicFromDemo localeCompare ?D))
     = [(''global-financial-turning-points'', 1)]"
    by code_simp
  from derived_structures_visibility
         [where P = exPlatform and now = "''t0''" and payload = exSeed
            and timelineSlug = "''global-financial-turning-points''"]
       derived_structures_visibility
         [where P = exPlatform and now = "''t0''" and payload = exTwinsSeed
            and filters = exNoFilters]
       a b c d t
  show ?thesis by blast
qed

section \<open>Events of a month-day\<close>

text \<open>
  C6 at a failing input. Two published events share the date 1987-10-19; the seed
  lists the one of importance 2 first. The in-memory path sorts by date only and
  returns them in seed order, importance 2 before importance 5; the live query, with
  \<open>ORDER BY e.event_date DESC, e.importance_score DESC\<close>, returns importance 5 first.
\<close>

theorem monthDay_demo_keeps_seed_order:
  "map i_importance_score
       (listPublishedEventsByMonthDayFromDemo (buildDataset exPlatform ''t0'' exTiesSeed) ''10-19'')
     = [2, 5]
   \<and> map i_importance_score
       (listPublishedEventsByMonthDayQuery (buildDataset exPlatform ''t0'' exTiesSeed) ''10-19'')
     = [5, 2]
   \<and> map_sum (\<lambda>error. error) (map (\<lambda>item. (i_event_date item, i_importance_score item)))
       (listPublishedEventsByMonthDay exUnsetEnv
          (Reachable (buildDataset exPlatform ''t0'' exTiesSeed))
          (buildDataset exPlatform ''t0'' exTiesSeed) ''10-19'')
     = Inr [(''1987-10-19'', 2), (''1987-10-19'', 5)]
   \<and> map_sum (\<lambda>error. error) (map (\<lambda>item. (i_event_date item, i_importance_score item)))
       (listPublishedEventsByMonthDay exEnv
          (Reachable (buildDataset exPlatform ''t0'' exTiesSeed))
          (buildDataset exPlatform ''t0'' exTiesSeed) ''10-19'')
     = Inr [(''1987-10-19'', 5), (''1987-10-19'', 2)]"
  by code_simp

end
